theory Spec2Isabelle
  imports Main
begin

text \<open>
  The tool-orchestration layer of the agent: the connection manager
  (\<^verbatim>\<open>services/mcp/mcp.client.ts\<close>), the tool registry (\<^verbatim>\<open>ToolRegistrationService\<close>) and the
  action result normalizer (\<^verbatim>\<open>actionService.updateActionWithResult\<close>), as HOL functions on
  explicit states. An exception is a value of a sum type, an \<^verbatim>\<open>await\<close> is a step between
  states, and what the collaborators outside these files do is a parameter.
\<close>

section \<open>JavaScript values\<close>

text \<open>
  The values that flow through the tool layer at run time: what a capability server
  answers, what a tool returns, what \<^verbatim>\<open>updateActionWithResult\<close> receives as
  \<^verbatim>\<open>result: unknown\<close>. Numbers are restricted to the integers, whose \<^verbatim>\<open>String\<close>
  and \<^verbatim>\<open>JSON.stringify\<close> forms are the decimal numerals. An object is its list of
  own properties in enumeration order, each key once. A string is its list of characters.
\<close>

datatype json =
    JUndefined
  | JNull
  | JBool bool
  | JNum int
  | JStr string
  | JArr "json list"
  | JObj "(string \<times> json) list"

text \<open>Truthiness, as \<^verbatim>\<open>if (v)\<close>, \<^verbatim>\<open>!v\<close> and \<^verbatim>\<open>a || b\<close> read a value.\<close>

fun truthy :: "json \<Rightarrow> bool" where
  "truthy JUndefined = False"
| "truthy JNull = False"
| "truthy (JBool b) = b"
| "truthy (JNum n) = (n \<noteq> 0)"
| "truthy (JStr s) = (s \<noteq> [])"
| "truthy (JArr _) = True"
| "truthy (JObj _) = True"

text \<open>\<^verbatim>\<open>a || b\<close>\<close>

definition js_or :: "json \<Rightarrow> json \<Rightarrow> json" where
  "js_or a b = (if truthy a then a else b)"

text \<open>\<^verbatim>\<open>v === undefined || v === null\<close>: the values a property read raises a TypeError on.\<close>

fun nullish :: "json \<Rightarrow> bool" where
  "nullish JUndefined = True"
| "nullish JNull = True"
| "nullish _ = False"

text \<open>\<^verbatim>\<open>typeof v === 'object' && v !== null\<close>\<close>

fun is_object :: "json \<Rightarrow> bool" where
  "is_object (JArr _) = True"
| "is_object (JObj _) = True"
| "is_object _ = False"

text \<open>\<^verbatim>\<open>Array.isArray(v)\<close>\<close>

fun isArray :: "json \<Rightarrow> bool" where
  "isArray (JArr _) = True"
| "isArray _ = False"

text \<open>
  \<^verbatim>\<open>v.k\<close> for a value that is neither null nor undefined, and for the field names the
  sources read (\<^verbatim>\<open>content\<close>, \<^verbatim>\<open>text\<close>, \<^verbatim>\<open>type\<close>, \<^verbatim>\<open>tools\<close>, \<^verbatim>\<open>name\<close>, \<^verbatim>\<open>uuid\<close>,
  \<^verbatim>\<open>description\<close>, \<^verbatim>\<open>metadata\<close>, \<^verbatim>\<open>source\<close>, \<^verbatim>\<open>inputSchema\<close>, \<^verbatim>\<open>properties\<close>,
  \<^verbatim>\<open>required\<close>): none of them is an index or
  \<^verbatim>\<open>length\<close>, so an array or a primitive has no such property and the read gives
  \<^verbatim>\<open>undefined\<close>.
\<close>

fun get_field :: "json \<Rightarrow> string \<Rightarrow> json" where
  "get_field (JObj kvs) k = (case map_of kvs k of Some v \<Rightarrow> v | None \<Rightarrow> JUndefined)"
| "get_field _ k = JUndefined"

text \<open>\<^verbatim>\<open>'k' in v\<close> for an object or an array \<^verbatim>\<open>v\<close> (on a primitive the operator raises).\<close>

fun has_field :: "json \<Rightarrow> string \<Rightarrow> bool" where
  "has_field (JObj kvs) k = (map_of kvs k \<noteq> None)"
| "has_field _ k = False"

text \<open>\<^verbatim>\<open>v?.k\<close>\<close>

definition opt_field :: "json \<Rightarrow> string \<Rightarrow> json" where
  "opt_field v k = (if nullish v then JUndefined else get_field v k)"

subsection \<open>Conversion to text\<close>

text \<open>\<^verbatim>\<open>xs.join(sep)\<close> on strings.\<close>

fun join :: "string \<Rightarrow> string list \<Rightarrow> string" where
  "join sep [] = []"
| "join sep [x] = x"
| "join sep (x # y # ys) = x @ sep @ join sep (y # ys)"

definition digit_char :: "nat \<Rightarrow> char" where
  "digit_char d = ''0123456789'' ! d"

fun nat_str :: "nat \<Rightarrow> string" where
  "nat_str n = (if n < 10 then [digit_char n] else nat_str (n div 10) @ [digit_char (n mod 10)])"

declare nat_str.simps [simp del]

definition num_str :: "int \<Rightarrow> string" where
  "num_str i = (if i < 0 then CHR ''-'' # nat_str (nat (- i)) else nat_str (nat i))"

text \<open>
  \<^verbatim>\<open>String(v)\<close>, the conversion a template literal \<^verbatim>\<open>`${v}`\<close> applies. An array is its
  elements joined by commas, a null or undefined element being the empty string; a plain
  object is \<^verbatim>\<open>[object Object]\<close>.
\<close>

fun js_String :: "json \<Rightarrow> string"
  and js_String_elem :: "json \<Rightarrow> string"
  and js_String_elems :: "json list \<Rightarrow> string list" where
  "js_String JUndefined = ''undefined''"
| "js_String JNull = ''null''"
| "js_String (JBool b) = (if b then ''true'' else ''false'')"
| "js_String (JNum n) = num_str n"
| "js_String (JStr s) = s"
| "js_String (JArr xs) = join '','' (js_String_elems xs)"
| "js_String (JObj kvs) = ''[object Object]''"
| "js_String_elem v = (if nullish v then [] else js_String v)"
| "js_String_elems [] = []"
| "js_String_elems (x # xs) = js_String_elem x # js_String_elems xs"

subsection \<open>\<^verbatim>\<open>JSON.stringify\<close>\<close>

definition hex_char :: "nat \<Rightarrow> char" where
  "hex_char d = ''0123456789abcdef'' ! d"

text \<open>The escapes of a string literal: the quote, the backslash and the control characters.\<close>

definition escape_char :: "char \<Rightarrow> string" where
  "escape_char c =
     (if c = CHR 0x22 then [CHR 0x5C, CHR 0x22]
      else if c = CHR 0x5C then [CHR 0x5C, CHR 0x5C]
      else if c = CHR 0x08 then [CHR 0x5C, CHR ''b'']
      else if c = CHR 0x0C then [CHR 0x5C, CHR ''f'']
      else if c = CHR 0x0A then [CHR 0x5C, CHR ''n'']
      else if c = CHR 0x0D then [CHR 0x5C, CHR ''r'']
      else if c = CHR 0x09 then [CHR 0x5C, CHR ''t'']
      else if of_char c < (32::nat)
        then [CHR 0x5C, CHR ''u'', CHR ''0'', CHR ''0'',
              hex_char (of_char c div 16), hex_char (of_char c mod 16)]
      else [c])"

definition quote :: "string \<Rightarrow> string" where
  "quote s = CHR 0x22 # concat (map escape_char s) @ [CHR 0x22]"

text \<open>
  The serialization of a value that is not \<^verbatim>\<open>undefined\<close>. Inside an array
  \<^verbatim>\<open>undefined\<close> is written \<^verbatim>\<open>null\<close>; a property whose value is \<^verbatim>\<open>undefined\<close> is left
  out of its object.
\<close>

fun stringify :: "json \<Rightarrow> string"
  and stringify_elems :: "json list \<Rightarrow> string list"
  and stringify_members :: "(string \<times> json) list \<Rightarrow> string list" where
  "stringify JUndefined = ''null''"
| "stringify JNull = ''null''"
| "stringify (JBool b) = (if b then ''true'' else ''false'')"
| "stringify (JNum n) = num_str n"
| "stringify (JStr s) = quote s"
| "stringify (JArr xs) = ''['' @ join '','' (stringify_elems xs) @ '']''"
| "stringify (JObj kvs) = ''{'' @ join '','' (stringify_members kvs) @ ''}''"
| "stringify_elems [] = []"
| "stringify_elems (x # xs) = stringify x # stringify_elems xs"
| "stringify_members [] = []"
| "stringify_members ((k, v) # kvs) =
     (if v = JUndefined then stringify_members kvs
      else (quote k @ '':'' @ stringify v) # stringify_members kvs)"

text \<open>\<^verbatim>\<open>JSON.stringify(v)\<close>: \<^verbatim>\<open>undefined\<close> (here \<open>None\<close>) for \<^verbatim>\<open>undefined\<close>, a string otherwise.\<close>

definition JSON_stringify :: "json \<Rightarrow> string option" where
  "JSON_stringify v = (if v = JUndefined then None else Some (stringify v))"

section \<open>Action Result Normalizer: canonical text\<close>

text \<open>
  The object literal the fallback branch of \<^verbatim>\<open>updateActionWithResult\<close> builds from the
  well-known fields of the result, in the order it lists them.
\<close>

definition digest_fields :: "json \<Rightarrow> (string \<times> json) list" where
  "digest_fields result =
     [(''uuid'', get_field result ''uuid''),
      (''name'', get_field result ''name''),
      (''content'', js_or (get_field result ''text'') (get_field result ''content'')),
      (''description'', get_field result ''description''),
      (''metadata_description'', opt_field (get_field result ''metadata'') ''description''),
      (''metadata_source'', opt_field (get_field result ''metadata'') ''source''),
      (''original_source'', get_field result ''source'')]"

text \<open>
  \<^verbatim>\<open>Object.entries(...).filter(...).map(([key, value]) => `${key}: ${value}`).join('\n')\<close>
\<close>

definition digest :: "json \<Rightarrow> string" where
  "digest result =
     join [CHR 0x0A]
       (map (\<lambda>(key, v). key @ '': '' @ js_String v)
          (filter (\<lambda>(key, v). v \<noteq> JUndefined \<and> v \<noteq> JNull) (digest_fields result)))"

text \<open>The test on \<^verbatim>\<open>content[0]\<close>: an object of type \<^verbatim>\<open>text\<close> with a string \<^verbatim>\<open>text\<close>.\<close>

definition is_text_item :: "json \<Rightarrow> bool" where
  "is_text_item firstContent \<longleftrightarrow>
     is_object firstContent \<and> get_field firstContent ''type'' = JStr ''text''
     \<and> (case get_field firstContent ''text'' of JStr _ \<Rightarrow> True | _ \<Rightarrow> False)"

text \<open>
  The value of \<^verbatim>\<open>extracted_text_content\<close> when the branches of
  \<^verbatim>\<open>updateActionWithResult\<close> have run: \<open>None\<close> stands for \<^verbatim>\<open>undefined\<close>, which
  \<^verbatim>\<open>JSON.stringify\<close> returns for an undefined result.
\<close>

definition extract_text_content :: "json \<Rightarrow> string option" where
  "extract_text_content result =
     (case result of
        JStr s \<Rightarrow> Some s
      | _ \<Rightarrow>
        if is_object result then
          (case get_field result ''content'' of
             JArr (firstContent # rest) \<Rightarrow>
               if is_text_item firstContent
               then (case get_field firstContent ''text'' of
                       JStr t \<Rightarrow> Some t | _ \<Rightarrow> JSON_stringify result)
               else JSON_stringify result
           | _ \<Rightarrow>
               if digest result = [] then JSON_stringify result else Some (digest result))
        else JSON_stringify result)"

section \<open>Errors\<close>

text \<open>
  The sources raise plain \<^verbatim>\<open>Error\<close> values told apart by their message; each message
  is a constructor. \<open>TypeError\<close> is the run-time error of a property read on
  \<^verbatim>\<open>null\<close>/\<^verbatim>\<open>undefined\<close> or of \<^verbatim>\<open>in\<close> on a primitive. \<open>External\<close> is a
  failure raised by a collaborator (the protocol SDK, the database, the document service).
\<close>

datatype error =
    StdioNoCommand
  | HttpNoAddress
  | HttpNotImplemented
  | UnsupportedTransport string string
  | TypeError
  | ActionNotFound
  | RetrieveFailed
  | External string

section \<open>Action Result Normalizer: persistence\<close>

datatype action_status = StatusPending | StatusCompleted | StatusFailed

text \<open>A row of the \<^verbatim>\<open>actions\<close> table; the table is keyed by the row's \<^verbatim>\<open>uuid\<close>.\<close>

record action_row =
  a_task_uuid :: string
  a_tool_uuid :: string
  a_name :: string
  a_sequence :: int
  a_status :: action_status
  a_payload :: "string option"
  a_result :: "string option"
  a_updated_at :: string

record document =
  d_uuid :: string
  d_text :: string
  d_conversation_uuid :: string
  d_source_uuid :: string
  d_action_uuid :: string
  d_type :: string
  d_content_type :: string
  d_source :: string
  d_should_index :: bool

text \<open>
  The database: the \<^verbatim>\<open>actions\<close> and \<^verbatim>\<open>documents\<close> tables by their uuid, and the
  \<^verbatim>\<open>actionDocuments\<close> association rows (action uuid, document uuid) in insertion order.
\<close>

record store =
  actions :: "string \<rightharpoonup> action_row"
  actionDocuments :: "(string \<times> string) list"
  documents :: "string \<rightharpoonup> document"

datatype db_op = UpdateAction | InsertActionDocument | QueryAction

text \<open>
  What the collaborators of one \<^verbatim>\<open>updateActionWithResult\<close> call do: the clock, the
  document service (it fails, or creates the document under a uuid of its choice), the
  statements the database rejects, and whether the insert of the document service, which
  is not handed the transaction handle, is undone with the transaction.
\<close>

record action_world =
  now :: string
  created_doc_uuid :: "error + string"
  db_fault :: "db_op \<Rightarrow> error option"
  doc_joins_tx :: bool

text \<open>
  Modelled from the spec: \<^verbatim>\<open>documentService.createDocument\<close>, whose source is not
  among the files. It creates a Document carrying the given text, tagged with the
  metadata it is handed, and returns it; it may fail.
\<close>

definition createDocument ::
  "action_world \<Rightarrow> string \<Rightarrow> string \<Rightarrow> string \<Rightarrow> string \<Rightarrow> store
     \<Rightarrow> (error + document) \<times> store" where
  "createDocument w conversation txt src action st =
     (case created_doc_uuid w of
        Inl e \<Rightarrow> (Inl e, st)
      | Inr u \<Rightarrow>
          (let d = \<lparr>d_uuid = u, d_text = txt, d_conversation_uuid = conversation,
                     d_source_uuid = src, d_action_uuid = action, d_type = ''text'',
                     d_content_type = ''full'', d_source = ''action_result'',
                     d_should_index = True\<rparr>
           in (Inr d, st\<lparr>documents := (documents st)(u \<mapsto> d)\<rparr>)))"

text \<open>
  Modelled from the spec: \<^verbatim>\<open>db.transaction(async tx => ...)\<close>, whose \<^verbatim>\<open>db\<close> module is not
  among the files. Any failure inside the transaction rolls back all of it: the writes the
  callback makes through \<^verbatim>\<open>tx\<close> (the \<^verbatim>\<open>actions\<close> and \<^verbatim>\<open>actionDocuments\<close> tables) are
  committed when it returns and undone when it throws, and the error is passed on.
\<close>

definition transaction ::
  "action_world \<Rightarrow> (store \<Rightarrow> (error + 'a) \<times> store) \<Rightarrow> store \<Rightarrow> (error + 'a) \<times> store" where
  "transaction w body st =
     (case body st of
        (Inl e, st') \<Rightarrow>
          (Inl e, if doc_joins_tx w then st
                  else st'\<lparr>actions := actions st, actionDocuments := actionDocuments st\<rparr>)
      | (Inr v, st') \<Rightarrow> (Inr v, st'))"

text \<open>
  \<^verbatim>\<open>.set({status: 'completed', result: extracted_text_content, updated_at: ...})\<close>: a
  key whose value is \<^verbatim>\<open>undefined\<close> is left out of the update by the ORM.
\<close>

definition set_completed :: "string option \<Rightarrow> string \<Rightarrow> action_row \<Rightarrow> action_row" where
  "set_completed extracted ts a =
     a\<lparr>a_status := StatusCompleted,
       a_result := (case extracted of Some t \<Rightarrow> Some t | None \<Rightarrow> a_result a),
       a_updated_at := ts\<rparr>"

text \<open>\<^verbatim>\<open>if (document_text)\<close>\<close>

definition text_truthy :: "string option \<Rightarrow> bool" where
  "text_truthy t = (case t of Some s \<Rightarrow> s \<noteq> [] | None \<Rightarrow> False)"

text \<open>The Action as returned: the row with the documents linked to it.\<close>

record action_with_documents =
  row :: action_row
  docs :: "document option list"

text \<open>
  \<^verbatim>\<open>tx.query.actions.findMany({where: eq(actions.uuid, uuid), with: {actionDocuments:
  {with: {document: true}}}})\<close>, first row: the action and, for each of its association
  rows, the document it names.
\<close>

definition query_action :: "string \<Rightarrow> store \<Rightarrow> action_with_documents option" where
  "query_action uuid st =
     (case actions st uuid of
        None \<Rightarrow> None
      | Some a \<Rightarrow>
          Some \<lparr>row = a,
                docs = map (\<lambda>(au, du). documents st du)
                         (filter (\<lambda>(au, du). au = uuid) (actionDocuments st))\<rparr>)"

text \<open>The callback of the transaction in \<^verbatim>\<open>updateActionWithResult\<close>.\<close>

definition updateActionWithResult_tx ::
  "action_world \<Rightarrow> string \<Rightarrow> json \<Rightarrow> store \<Rightarrow> (error + action_with_documents) \<times> store" where
  "updateActionWithResult_tx w uuid result st =
     (let extracted_text_content = extract_text_content result in
      case db_fault w UpdateAction of
        Some e \<Rightarrow> (Inl e, st)
      | None \<Rightarrow>
      (case actions st uuid of
         None \<Rightarrow> (Inl ActionNotFound, st)
       | Some old \<Rightarrow>
         (let action = set_completed extracted_text_content (now w) old;
              st1 = st\<lparr>actions := (actions st)(uuid \<mapsto> action)\<rparr>
          in if text_truthy extracted_text_content then
               (case createDocument w (a_task_uuid action) (the extracted_text_content)
                       (a_task_uuid action) uuid st1 of
                  (Inl e, st2) \<Rightarrow> (Inl e, st2)
                | (Inr created_doc, st2) \<Rightarrow>
                  (case db_fault w InsertActionDocument of
                     Some e \<Rightarrow> (Inl e, st2)
                   | None \<Rightarrow>
                     (let st3 = st2\<lparr>actionDocuments :=
                                        actionDocuments st2 @ [(uuid, d_uuid created_doc)]\<rparr>
                      in case db_fault w QueryAction of
                           Some e \<Rightarrow> (Inl e, st3)
                         | None \<Rightarrow>
                           (case query_action uuid st3 of
                              None \<Rightarrow> (Inl RetrieveFailed, st3)
                            | Some action_with_documents \<Rightarrow>
                                (Inr action_with_documents, st3)))))
             else (Inr \<lparr>row = action, docs = []\<rparr>, st1))))"

definition updateActionWithResult ::
  "action_world \<Rightarrow> string \<Rightarrow> json \<Rightarrow> store \<Rightarrow> (error + action_with_documents) \<times> store" where
  "updateActionWithResult w uuid result st =
     transaction w (updateActionWithResult_tx w uuid result) st"

section \<open>Connection Manager\<close>

text \<open>\<^verbatim>\<open>McpServerConfig\<close>; an optional field is an option.\<close>

record server_config =
  server_id :: string
  server_name :: string
  address :: "string option"
  transport_type :: string
  command :: "string option"
  args :: "string list option"
  env :: "(string \<times> string) list option"
  enabled :: bool
  server_description :: "string option"

text \<open>\<^verbatim>\<open>StdioClientTransportOptions\<close>, the argument of \<^verbatim>\<open>new StdioClientTransport\<close>.\<close>

datatype transport = StdioClientTransport string "string list" "(string \<times> string) list option"

text \<open>Truthiness of an optional string: \<^verbatim>\<open>undefined\<close> and the empty string are falsy.\<close>

definition str_truthy :: "string option \<Rightarrow> bool" where
  "str_truthy s = (case s of Some t \<Rightarrow> t \<noteq> [] | None \<Rightarrow> False)"

text \<open>
  The transport selection of \<^verbatim>\<open>establishConnection\<close>: the statements of its \<^verbatim>\<open>try\<close>
  block before the client is created, each \<^verbatim>\<open>throw\<close> an \<open>Inl\<close>.
\<close>

definition select_transport :: "server_config \<Rightarrow> error + transport" where
  "select_transport serverConfig =
     (if transport_type serverConfig = ''stdio'' then
        (if \<not> str_truthy (command serverConfig) then Inl StdioNoCommand
         else Inr (StdioClientTransport (the (command serverConfig))
                     (case args serverConfig of Some a \<Rightarrow> a | None \<Rightarrow> [])
                     (env serverConfig)))
      else if transport_type serverConfig = ''http'' then
        (if \<not> str_truthy (address serverConfig) then Inl HttpNoAddress
         else Inl HttpNotImplemented)
      else Inl (UnsupportedTransport (transport_type serverConfig) (server_id serverConfig)))"

text \<open>
  The kinds the design gives to these errors: a configuration that lacks the field its
  transport needs, and a transport that is not implemented.
\<close>

datatype error_kind = Configuration | NotImplemented | OtherKind

fun kind_of :: "error \<Rightarrow> error_kind" where
  "kind_of StdioNoCommand = Configuration"
| "kind_of HttpNoAddress = Configuration"
| "kind_of HttpNotImplemented = NotImplemented"
| "kind_of (UnsupportedTransport t i) = NotImplemented"
| "kind_of _ = OtherKind"

text \<open>
  A promise of \<^verbatim>\<open>establishConnection\<close>: in flight while \<^verbatim>\<open>client.connect\<close> is awaited,
  then fulfilled with the client or rejected.
\<close>

datatype 'c promise = InFlight | Fulfilled 'c | Rejected error

text \<open>
  The state of \<^verbatim>\<open>McpClientService\<close>: its two maps, and the heap of the promises its
  \<^verbatim>\<open>establishConnection\<close> calls have returned. A promise is named by the number of calls
  made before it; \<open>promise_server\<close> is the server id of the call, which its \<^verbatim>\<open>catch\<close>
  block reads. \<open>connect_calls\<close> records the I/O: each \<^verbatim>\<open>client.connect(transport)\<close>, which
  for a stdio transport spawns the child process.
\<close>

record 'c McpClientService =
  clients :: "string \<rightharpoonup> 'c"
  connectingPromises :: "string \<rightharpoonup> nat"
  promise_state :: "nat \<Rightarrow> 'c promise"
  promise_server :: "nat \<Rightarrow> string"
  attempts :: nat
  connect_calls :: "(nat \<times> transport) list"

text \<open>
  \<^verbatim>\<open>establishConnection\<close> up to its first suspension. A configuration that fails the
  transport selection throws inside the \<^verbatim>\<open>try\<close>: the \<^verbatim>\<open>catch\<close> block deletes the pending
  entry and the promise is rejected at once. Otherwise \<^verbatim>\<open>client.connect\<close> is called and
  the promise is in flight.
\<close>

definition establishConnection_begin ::
  "server_config \<Rightarrow> 'c McpClientService \<Rightarrow> nat \<times> 'c McpClientService" where
  "establishConnection_begin serverConfig s =
     (let p = attempts s in
      case select_transport serverConfig of
        Inl e \<Rightarrow>
          (p, s\<lparr>connectingPromises := (connectingPromises s)(server_id serverConfig := None),
                promise_state := (promise_state s)(p := Rejected e),
                promise_server := (promise_server s)(p := server_id serverConfig),
                attempts := Suc p\<rparr>)
      | Inr t \<Rightarrow>
          (p, s\<lparr>promise_state := (promise_state s)(p := InFlight),
                promise_server := (promise_server s)(p := server_id serverConfig),
                attempts := Suc p,
                connect_calls := connect_calls s @ [(p, t)]\<rparr>))"

text \<open>
  The event that \<^verbatim>\<open>client.connect\<close> of promise \<open>p\<close> settles, and the rest of
  \<^verbatim>\<open>establishConnection\<close> runs: on success it returns the client, on failure the
  \<^verbatim>\<open>catch\<close> block deletes the pending entry of its server and rethrows.
\<close>

definition connect_settled :: "nat \<Rightarrow> error + 'c \<Rightarrow> 'c McpClientService \<Rightarrow> 'c McpClientService" where
  "connect_settled p outcome s =
     (case promise_state s p of
        InFlight \<Rightarrow>
          (case outcome of
             Inr client \<Rightarrow> s\<lparr>promise_state := (promise_state s)(p := Fulfilled client)\<rparr>
           | Inl e \<Rightarrow>
               s\<lparr>connectingPromises := (connectingPromises s)(promise_server s p := None),
                 promise_state := (promise_state s)(p := Rejected e)\<rparr>)
      | _ \<Rightarrow> s)"

text \<open>
  What a \<^verbatim>\<open>getClient\<close> call holds when it first suspends or returns: the stored client,
  the pending promise of another call, or the promise of the attempt it started itself.
\<close>

datatype 'c getClient_call = Returned 'c | Awaits nat | Owns nat

text \<open>\<^verbatim>\<open>getClient\<close> up to its \<^verbatim>\<open>await connectPromise\<close>.\<close>

definition getClient_begin ::
  "server_config \<Rightarrow> 'c McpClientService \<Rightarrow> 'c getClient_call \<times> 'c McpClientService" where
  "getClient_begin serverConfig s =
     (case clients s (server_id serverConfig) of
        Some client \<Rightarrow> (Returned client, s)
      | None \<Rightarrow>
          (case connectingPromises s (server_id serverConfig) of
             Some p \<Rightarrow> (Awaits p, s)
           | None \<Rightarrow>
               (let (p, s1) = establishConnection_begin serverConfig s
                in (Owns p, s1\<lparr>connectingPromises :=
                                  (connectingPromises s1)(server_id serverConfig \<mapsto> p)\<rparr>))))"

text \<open>
  The \<^verbatim>\<open>try\<close>/\<^verbatim>\<open>finally\<close> of \<^verbatim>\<open>getClient\<close> once \<^verbatim>\<open>connectPromise\<close> has settled with
  \<open>outcome\<close>: a client is stored, and the pending entry is deleted either way.
\<close>

definition getClient_finish ::
  "server_config \<Rightarrow> error + 'c \<Rightarrow> 'c McpClientService \<Rightarrow> (error + 'c) \<times> 'c McpClientService" where
  "getClient_finish serverConfig outcome s =
     (case outcome of
        Inr client \<Rightarrow>
          (Inr client,
           s\<lparr>clients := (clients s)(server_id serverConfig \<mapsto> client),
             connectingPromises := (connectingPromises s)(server_id serverConfig := None)\<rparr>)
      | Inl e \<Rightarrow>
          (Inl e, s\<lparr>connectingPromises := (connectingPromises s)(server_id serverConfig := None)\<rparr>))"

text \<open>The settled value of a promise; \<open>None\<close> while it is in flight.\<close>

fun settled :: "'c promise \<Rightarrow> (error + 'c) option" where
  "settled InFlight = None"
| "settled (Fulfilled client) = Some (Inr client)"
| "settled (Rejected e) = Some (Inl e)"

text \<open>
  The continuation of the call that owns promise \<open>p\<close>; it cannot run while \<open>p\<close> is in
  flight (\<open>None\<close>).
\<close>

definition getClient_resume ::
  "server_config \<Rightarrow> nat \<Rightarrow> 'c McpClientService
     \<Rightarrow> ((error + 'c) \<times> 'c McpClientService) option" where
  "getClient_resume serverConfig p s =
     (case settled (promise_state s p) of
        None \<Rightarrow> None
      | Some outcome \<Rightarrow> Some (getClient_finish serverConfig outcome s))"



text \<open>
  What the protocol SDK and the servers do: the outcome of \<^verbatim>\<open>client.connect\<close> for a
  server, and what a connected client answers to \<^verbatim>\<open>listTools()\<close> and to
  \<^verbatim>\<open>callTool(request)\<close>.
\<close>

record 'c sdk =
  connect :: "string \<Rightarrow> error + 'c"
  client_listTools :: "'c \<Rightarrow> error + json"
  client_callTool :: "'c \<Rightarrow> json \<Rightarrow> error + json"

text \<open>
  \<^verbatim>\<open>await getClient(serverConfig)\<close> run to completion, no other call interleaved: the
  call suspends on a promise, the connection settles as the server decides (a promise
  already settled keeps its value), and the \<^verbatim>\<open>try\<close>/\<^verbatim>\<open>finally\<close> of the call that owns the
  promise runs; a waiter's owner has a configuration of the same id.
\<close>

definition await_connection ::
  "'c sdk \<Rightarrow> server_config \<Rightarrow> nat \<Rightarrow> 'c McpClientService
     \<Rightarrow> (error + 'c) \<times> 'c McpClientService" where
  "await_connection w serverConfig p s =
     (let outcome = (case settled (promise_state s p) of
                       None \<Rightarrow> connect w (server_id serverConfig)
                     | Some r \<Rightarrow> r)
      in getClient_finish serverConfig outcome (connect_settled p outcome s))"

definition getClient ::
  "'c sdk \<Rightarrow> server_config \<Rightarrow> 'c McpClientService \<Rightarrow> (error + 'c) \<times> 'c McpClientService" where
  "getClient w serverConfig s =
     (case getClient_begin serverConfig s of
        (Returned client, s1) \<Rightarrow> (Inr client, s1)
      | (Awaits p, s1) \<Rightarrow> await_connection w serverConfig p s1
      | (Owns p, s1) \<Rightarrow> await_connection w serverConfig p s1)"

text \<open>A sequence of \<^verbatim>\<open>getClient\<close> calls, each run to completion before the next.\<close>

fun getClient_sequence ::
  "'c sdk \<Rightarrow> server_config list \<Rightarrow> 'c McpClientService \<Rightarrow> 'c McpClientService" where
  "getClient_sequence w [] s = s"
| "getClient_sequence w (serverConfig # rest) s =
     getClient_sequence w rest (snd (getClient w serverConfig s))"

text \<open>The elements of an array value.\<close>

fun elements :: "json \<Rightarrow> json list" where
  "elements (JArr xs) = xs"
| "elements _ = []"

text \<open>
  \<^verbatim>\<open>listTools\<close> from the response of \<^verbatim>\<open>client.listTools()\<close> on. The operator \<^verbatim>\<open>in\<close>
  raises a TypeError on a primitive, which the guard \<^verbatim>\<open>result &&\<close> lets through when it
  is truthy; \<^verbatim>\<open>tools.map(t => t.name)\<close> raises one on a null or undefined element. The
  \<^verbatim>\<open>catch\<close> block logs and rethrows.
\<close>

definition listTools_adapt :: "json \<Rightarrow> error + json list" where
  "listTools_adapt result =
     (if truthy result \<and> \<not> is_object result then Inl TypeError
      else
        (let tools =
               (if truthy result \<and> has_field result ''tools''
                     \<and> isArray (get_field result ''tools'')
                then elements (get_field result ''tools'')
                else if isArray result then elements result
                else [])
         in if list_ex nullish tools then Inl TypeError else Inr tools))"

definition listTools :: "'c sdk \<Rightarrow> 'c \<Rightarrow> error + json list" where
  "listTools w client =
     (case client_listTools w client of
        Inl e \<Rightarrow> Inl e
      | Inr result \<Rightarrow> listTools_adapt result)"

text \<open>
  \<^verbatim>\<open>callTool\<close>: the request \<^verbatim>\<open>{name: toolName, arguments: payload}\<close> goes to the client
  and \<^verbatim>\<open>result.content\<close> is returned; the read raises on a null or undefined result.
\<close>

definition callTool :: "'c sdk \<Rightarrow> 'c \<Rightarrow> string \<Rightarrow> json \<Rightarrow> error + json" where
  "callTool w client toolName payload =
     (case client_callTool w client (JObj [(''name'', JStr toolName), (''arguments'', payload)]) of
        Inl e \<Rightarrow> Inl e
      | Inr result \<Rightarrow> if nullish result then Inl TypeError else Inr (get_field result ''content''))"

section \<open>Tool Registry\<close>

subsection \<open>Instruction synthesis\<close>

text \<open>
  \<^verbatim>\<open>Object.entries(v)\<close> for a truthy value: the properties of an object, the indexed
  elements of an array, the indexed characters of a string, nothing for a number or a
  boolean. \<^verbatim>\<open>Object.keys(v)\<close> has the same length.
\<close>

fun entries :: "json \<Rightarrow> (string \<times> json) list" where
  "entries (JObj kvs) = kvs"
| "entries (JArr xs) = zip (map nat_str [0..<length xs]) xs"
| "entries (JStr s) = zip (map nat_str [0..<length s]) (map (\<lambda>c. JStr [c]) s)"
| "entries _ = []"

text \<open>\<^verbatim>\<open>s.includes(p)\<close> on strings: \<open>p\<close> occurs in \<open>s\<close>.\<close>

fun str_includes :: "string \<Rightarrow> string \<Rightarrow> bool" where
  "str_includes [] p = (p = [])"
| "str_includes (c # s) p = (take (length p) (c # s) = p \<or> str_includes s p)"

text \<open>
  \<^verbatim>\<open>actualRequired?.includes(paramName)\<close>: undefined, hence falsy, on null and undefined;
  membership in an array; occurrence in a string; any other value has no \<^verbatim>\<open>includes\<close>
  and the call raises a TypeError.
\<close>

fun required_includes :: "json \<Rightarrow> string \<Rightarrow> error + bool" where
  "required_includes JUndefined p = Inr False"
| "required_includes JNull p = Inr False"
| "required_includes (JArr xs) p = Inr (List.member xs (JStr p))"
| "required_includes (JStr s) p = Inr (str_includes s p)"
| "required_includes _ p = Inl TypeError"

text \<open>The line \<^verbatim>\<open>formatMcpInstruction\<close> appends for one parameter.\<close>

definition param_line :: "json \<Rightarrow> string \<Rightarrow> json \<Rightarrow> error + string" where
  "param_line actualRequired paramName paramDetails =
     (if nullish paramDetails then Inl TypeError
      else
        (case required_includes actualRequired paramName of
           Inl e \<Rightarrow> Inl e
         | Inr req \<Rightarrow>
             Inr (''- '' @ [CHR 0x22] @ paramName @ [CHR 0x22] @ '': (type: ''
                  @ js_String (js_or (get_field paramDetails ''type'') (JStr ''any''))
                  @ (if truthy (get_field paramDetails ''description'')
                     then '', description: '' @ js_String (get_field paramDetails ''description'')
                     else [])
                  @ '')'' @ (if req then '' [required]'' else []) @ [CHR 0x0A])))"

fun param_lines :: "json \<Rightarrow> (string \<times> json) list \<Rightarrow> error + string" where
  "param_lines actualRequired [] = Inr []"
| "param_lines actualRequired ((paramName, paramDetails) # rest) =
     (case param_line actualRequired paramName paramDetails of
        Inl e \<Rightarrow> Inl e
      | Inr l \<Rightarrow>
          (case param_lines actualRequired rest of
             Inl e \<Rightarrow> Inl e
           | Inr ls \<Rightarrow> Inr (l @ ls)))"

definition instruction_header :: "json \<Rightarrow> string" where
  "instruction_header toolName =
     ''To use the '' @ [CHR 0x27] @ js_String toolName @ [CHR 0x27]
     @ '' tool, provide the following parameters in the payload as a JSON object:''
     @ [CHR 0x0A]"

definition instruction_fallback :: string where
  "instruction_fallback =
     ''This tool may not have explicitly defined parameters in its schema or uses a generic ''
     @ ''payload structure. Refer to its description or the tool may not require specific ''
     @ ''input fields.''"

text \<open>
  \<^verbatim>\<open>formatMcpInstruction(toolName, schema)\<close>. The read \<^verbatim>\<open>schema.properties\<close> raises on
  a null or undefined schema. One level is unwrapped when the only property is an object
  \<^verbatim>\<open>inputSchema\<close> with truthy \<^verbatim>\<open>properties\<close> of its own.
\<close>

definition formatMcpInstruction :: "json \<Rightarrow> json \<Rightarrow> error + string" where
  "formatMcpInstruction toolName schema =
     (if nullish schema then Inl TypeError
      else
        (let properties = get_field schema ''properties'';
             nestedSchema = get_field properties ''inputSchema'';
             unwrap = (truthy properties \<and> length (entries properties) = 1
                       \<and> truthy nestedSchema \<and> is_object nestedSchema
                       \<and> truthy (get_field nestedSchema ''properties''));
             actualProperties =
               (if unwrap then get_field nestedSchema ''properties'' else properties);
             actualRequired =
               (if unwrap then js_or (get_field nestedSchema ''required'') (JArr [])
                else get_field schema ''required'')
         in if truthy actualProperties \<and> 0 < length (entries actualProperties) then
              (case param_lines actualRequired (entries actualProperties) of
                 Inl e \<Rightarrow> Inl e
               | Inr ls \<Rightarrow> Inr (instruction_header toolName @ ls))
            else Inr (instruction_header toolName @ instruction_fallback)))"

subsection \<open>Registration\<close>

text \<open>The agent's \<^verbatim>\<open>Tool\<close>: a catalog entry.\<close>

record tool =
  t_uuid :: string
  t_name :: string
  t_description :: json
  t_instruction :: string

text \<open>
  A \<^verbatim>\<open>ToolService\<close> of \<^verbatim>\<open>activeToolsMap\<close>: an executor of the static local-operations
  map, or the closure the registry builds for a remote tool, which captures the
  configuration of its server.
\<close>

datatype 'svc ToolService = NativeToolService 'svc | McpToolService server_config

text \<open>
  What the collaborators of the registry do: the SDK, the persisted catalog
  (\<^verbatim>\<open>dbToolService.getAvailableTools()\<close>), the static maps \<^verbatim>\<open>nativeToolsMapConfig\<close> and
  \<^verbatim>\<open>mcpServerRegistry\<close>, the uuid generator by the number of the call, and whether
  \<^verbatim>\<open>stateManager.updateSession\<close>, which publishes the catalog to the session and whose
  source is not among the files, raises.
\<close>

record ('c, 'svc) registry_world =
  mcp_sdk :: "'c sdk"
  getAvailableTools :: "error + tool list"
  nativeToolsMapConfig :: "string \<rightharpoonup> 'svc"
  mcpServerRegistry :: "server_config list"
  uuidv4 :: "nat \<Rightarrow> string"
  updateSession_error :: "error option"

text \<open>
  The shared state: the connection manager, \<^verbatim>\<open>activeToolsMap\<close>, the flag
  \<^verbatim>\<open>isInitialized\<close>, the catalog published in the session (\<^verbatim>\<open>session.tools\<close>) and the
  number of uuids drawn.
\<close>

record ('c, 'svc) registry =
  mcpClientService :: "'c McpClientService"
  activeToolsMap :: "string \<rightharpoonup> 'svc ToolService"
  isInitialized :: bool
  session_tools :: "tool list"
  uuid_calls :: nat

text \<open>
  The loop over the native tools of the database: each one is pushed to \<^verbatim>\<open>loadedTools\<close>,
  then wired to its executor when the static map has one (a warning otherwise).
\<close>

fun register_native ::
  "('c, 'svc) registry_world \<Rightarrow> tool list \<Rightarrow> tool list \<times> ('c, 'svc) registry
     \<Rightarrow> tool list \<times> ('c, 'svc) registry" where
  "register_native w [] (loadedTools, r) = (loadedTools, r)"
| "register_native w (nativeTool # rest) (loadedTools, r) =
     register_native w rest
       (loadedTools @ [nativeTool],
        (case nativeToolsMapConfig w (t_name nativeTool) of
           Some service \<Rightarrow>
             r\<lparr>activeToolsMap :=
                 (activeToolsMap r)(t_name nativeTool \<mapsto> NativeToolService service)\<rparr>
         | None \<Rightarrow> r))"

text \<open>\<^verbatim>\<open>`${serverConfig.id}/${mcpTool.name}`\<close>\<close>

definition toolKey :: "server_config \<Rightarrow> json \<Rightarrow> string" where
  "toolKey serverConfig mcpTool =
     server_id serverConfig @ ''/'' @ js_String (get_field mcpTool ''name'')"


text \<open>
  The loop over the tools a server lists. The object pushed to \<^verbatim>\<open>loadedTools\<close> is built
  field by field: the uuid is drawn first, and when \<^verbatim>\<open>formatMcpInstruction\<close> raises,
  nothing is pushed and the loop is left for the \<^verbatim>\<open>catch\<close> block of the server.
\<close>

fun register_mcp_tools ::
  "('c, 'svc) registry_world \<Rightarrow> server_config \<Rightarrow> json list \<Rightarrow> tool list \<times> ('c, 'svc) registry
     \<Rightarrow> tool list \<times> ('c, 'svc) registry" where
  "register_mcp_tools w serverConfig [] (loadedTools, r) = (loadedTools, r)"
| "register_mcp_tools w serverConfig (mcpTool # rest) (loadedTools, r) =
     (let r1 = r\<lparr>uuid_calls := Suc (uuid_calls r)\<rparr> in
      case formatMcpInstruction (get_field mcpTool ''name'') (get_field mcpTool ''inputSchema'') of
        Inl e \<Rightarrow> (loadedTools, r1)
      | Inr instruction \<Rightarrow>
          register_mcp_tools w serverConfig rest
            (loadedTools @
               [\<lparr>t_uuid = uuidv4 w (uuid_calls r),
                 t_name = toolKey serverConfig mcpTool,
                 t_description =
                   js_or (get_field mcpTool ''description'')
                     (JStr (''MCP tool '' @ js_String (get_field mcpTool ''name'') @ '' from ''
                            @ server_name serverConfig)),
                 t_instruction = instruction\<rparr>],
             r1\<lparr>activeToolsMap :=
                  (activeToolsMap r1)(toolKey serverConfig mcpTool \<mapsto> McpToolService serverConfig)\<rparr>))"

text \<open>
  The body of the loop over \<^verbatim>\<open>mcpServerRegistry\<close>: connect, list, register; a failure
  of any step is caught and logged, and the loop goes on with the next server. The
  \<^verbatim>\<open>enabled\<close> flag is not read: its test is a comment in the source.
\<close>

definition register_server ::
  "('c, 'svc) registry_world \<Rightarrow> server_config \<Rightarrow> tool list \<times> ('c, 'svc) registry
     \<Rightarrow> tool list \<times> ('c, 'svc) registry" where
  "register_server w serverConfig lr =
     (case lr of (loadedTools, r) \<Rightarrow>
        (case getClient (mcp_sdk w) serverConfig (mcpClientService r) of
           (Inl e, m) \<Rightarrow> (loadedTools, r\<lparr>mcpClientService := m\<rparr>)
         | (Inr client, m) \<Rightarrow>
             (case listTools (mcp_sdk w) client of
                Inl e \<Rightarrow> (loadedTools, r\<lparr>mcpClientService := m\<rparr>)
              | Inr mcpTools \<Rightarrow>
                  register_mcp_tools w serverConfig mcpTools
                    (loadedTools, r\<lparr>mcpClientService := m\<rparr>))))"

fun register_servers ::
  "('c, 'svc) registry_world \<Rightarrow> server_config list \<Rightarrow> tool list \<times> ('c, 'svc) registry
     \<Rightarrow> tool list \<times> ('c, 'svc) registry" where
  "register_servers w [] lr = lr"
| "register_servers w (serverConfig # rest) lr =
     register_servers w rest (register_server w serverConfig lr)"


text \<open>
  The two registration steps of \<^verbatim>\<open>initializeTools\<close>, from the empty \<^verbatim>\<open>loadedTools\<close>
  to the end of the loop over the servers. A failure of the database read is caught and
  logged, and the servers are still visited.
\<close>

definition registration_pass ::
  "('c, 'svc) registry_world \<Rightarrow> ('c, 'svc) registry \<Rightarrow> tool list \<times> ('c, 'svc) registry" where
  "registration_pass w r =
     register_servers w (mcpServerRegistry w)
       (case getAvailableTools w of
          Inl e \<Rightarrow> ([], r)
        | Inr dbNativeTools \<Rightarrow> register_native w dbNativeTools ([], r))"

text \<open>
  \<^verbatim>\<open>initializeTools\<close>. The result is \<open>None\<close> when the call returns and the error when it
  raises, which only \<^verbatim>\<open>stateManager.updateSession\<close> can make it do. The flag is set by
  the last statement.
\<close>

definition initializeTools ::
  "('c, 'svc) registry_world \<Rightarrow> ('c, 'svc) registry \<Rightarrow> error option \<times> ('c, 'svc) registry" where
  "initializeTools w r =
     (if isInitialized r then (None, r)
      else
        (case registration_pass w r of
           (loadedTools, r2) \<Rightarrow>
             (case updateSession_error w of
                Some e \<Rightarrow> (Some e, r2)
              | None \<Rightarrow> (None, r2\<lparr>session_tools := loadedTools, isInitialized := True\<rparr>))))"

text \<open>
  The \<^verbatim>\<open>execute\<close> of the closure registered for a remote tool: the internal key
  \<^verbatim>\<open>conversation_uuid\<close> is taken out of the payload, the rest goes to \<^verbatim>\<open>callTool\<close>.
\<close>

definition execute_mcp ::
  "'c sdk \<Rightarrow> server_config \<Rightarrow> string \<Rightarrow> (string \<times> json) list \<Rightarrow> 'c McpClientService
     \<Rightarrow> (error + json) \<times> 'c McpClientService" where
  "execute_mcp w serverConfig action payload s =
     (case getClient w serverConfig s of
        (Inl e, s1) \<Rightarrow> (Inl e, s1)
      | (Inr mcpClientInstance, s1) \<Rightarrow>
          (callTool w mcpClientInstance action
             (JObj (filter (\<lambda>(k, v). k \<noteq> ''conversation_uuid'') payload)),
           s1))"

text \<open>The keys of \<^verbatim>\<open>toolsMap\<close> in \<^verbatim>\<open>config/tools.config.ts\<close>, each with the name of its service.\<close>

definition toolsMap :: "string \<rightharpoonup> string" where
  "toolsMap =
     map_of [(''spotify'', ''spotifyService''), (''memory'', ''memoryService''),
       (''resend'', ''resendService''), (''files'', ''fileService''),
       (''speak'', ''speakService''), (''linear'', ''linearService''),
       (''maps'', ''mapService''), (''crypto'', ''cryptoService''),
       (''google'', ''webService''), (''calendar'', ''calendarService''),
       (''final_answer'', ''finalAnswerService'')]"

subsection \<open>Initial state and configuration\<close>

text \<open>The service as constructed: both maps empty, no promise made, no I/O done.\<close>

definition McpClientService_new :: "'c McpClientService" where
  "McpClientService_new =
     \<lparr>clients = Map.empty, connectingPromises = Map.empty,
      promise_state = (\<lambda>p. InFlight), promise_server = (\<lambda>p. []),
      attempts = 0, connect_calls = []\<rparr>"

text \<open>The registry when the module is loaded: \<^verbatim>\<open>activeToolsMap = {}\<close>, \<^verbatim>\<open>isInitialized = false\<close>.\<close>

definition registry_new :: "('c, 'svc) registry" where
  "registry_new =
     \<lparr>mcpClientService = McpClientService_new, activeToolsMap = Map.empty,
      isInitialized = False, session_tools = [], uuid_calls = 0\<rparr>"

text \<open>
  The entry of \<^verbatim>\<open>mcpServerRegistry\<close> in \<^verbatim>\<open>config/mcp-servers.config.ts\<close>, for a process
  whose \<^verbatim>\<open>PATH\<close> is \<open>path\<close>.
\<close>

definition firecrawl :: "string \<Rightarrow> server_config" where
  "firecrawl path =
     \<lparr>server_id = ''4b6d88f3-d23d-4ece-8dc7-5c8a94ac0d38'',
      server_name = ''Firecrawl'',
      address = None,
      transport_type = ''stdio'',
      command = Some ''/Users/overment/.nvm/versions/node/v22.11.0/bin/npx'',
      args = Some [''-y'', ''firecrawl-mcp''],
      env = Some [(''FIRECRAWL_API_KEY'', ''fc-...''),
                  (''PATH'', ''/Users/overment/.nvm/versions/node/v22.11.0/bin:'' @ path)],
      enabled = True,
      server_description = Some ''Firecrawl server to search / scrape the web''\<rparr>"

subsection \<open>A scenario\<close>

text \<open>
  Two tool definitions as a server lists them, two entries of the persisted catalog
  (\<^verbatim>\<open>memory\<close> has an executor in \<^verbatim>\<open>toolsMap\<close>, \<^verbatim>\<open>ghost\<close> has none), and a world in
  which every server accepts the connection and lists \<open>listing\<close> under the \<^verbatim>\<open>tools\<close>
  field, the database returns \<open>db\<close> and the configured servers are \<open>servers\<close>.
\<close>

definition scrape_tool :: json where
  "scrape_tool =
     JObj [(''name'', JStr ''firecrawl_scrape''), (''description'', JStr ''Scrape a page''),
           (''inputSchema'',
            JObj [(''type'', JStr ''object''),
                  (''properties'', JObj [(''url'', JObj [(''type'', JStr ''string'')])]),
                  (''required'', JArr [JStr ''url''])])]"

definition search_tool :: json where
  "search_tool = JObj [(''name'', JStr ''firecrawl_search''), (''inputSchema'', JObj [])]"

definition memory_entry :: tool where
  "memory_entry =
     \<lparr>t_uuid = ''t-1'', t_name = ''memory'', t_description = JStr ''Long-term memory'',
      t_instruction = ''recall or remember''\<rparr>"

definition ghost_entry :: tool where
  "ghost_entry =
     \<lparr>t_uuid = ''t-2'', t_name = ''ghost'', t_description = JStr ''No executor'',
      t_instruction = ''none''\<rparr>"

definition scenario_sdk :: "json \<Rightarrow> nat sdk" where
  "scenario_sdk response =
     \<lparr>connect = (\<lambda>i. Inr 1),
      client_listTools = (\<lambda>client. Inr response),
      client_callTool = (\<lambda>client request. Inr (JObj [(''content'', get_field request ''arguments'')]))\<rparr>"

definition scenario ::
  "json list \<Rightarrow> tool list \<Rightarrow> server_config list \<Rightarrow> (nat, string) registry_world" where
  "scenario listing db servers =
     \<lparr>mcp_sdk = scenario_sdk (JObj [(''tools'', JArr listing)]),
      getAvailableTools = Inr db,
      nativeToolsMapConfig = toolsMap,
      mcpServerRegistry = servers,
      uuidv4 = (\<lambda>n. ''uuid-'' @ nat_str n),
      updateSession_error = None\<rparr>"

text \<open>
  A store with one pending action \<^verbatim>\<open>a1\<close>, and a world of the normalizer in which the
  database rejects nothing and the document service ends as \<open>outcome\<close>.
\<close>

definition pending_action :: action_row where
  "pending_action =
     \<lparr>a_task_uuid = ''task-1'', a_tool_uuid = ''tool-1'', a_name = ''search'', a_sequence = 1,
      a_status = StatusPending, a_payload = None, a_result = None, a_updated_at = ''t0''\<rparr>"

definition one_action_store :: store where
  "one_action_store =
     \<lparr>actions = [''a1'' \<mapsto> pending_action], actionDocuments = [], documents = Map.empty\<rparr>"

definition action_world_of :: "error + string \<Rightarrow> bool \<Rightarrow> action_world" where
  "action_world_of outcome joins =
     \<lparr>now = ''t1'', created_doc_uuid = outcome, db_fault = (\<lambda>op. None), doc_joins_tx = joins\<rparr>"

lemmas scenario_defs = scenario_def scenario_sdk_def scrape_tool_def search_tool_def
  memory_entry_def ghost_entry_def registry_new_def McpClientService_new_def firecrawl_def
  toolsMap_def

lemmas getClient_defs = getClient_def getClient_begin_def establishConnection_begin_def
  select_transport_def str_truthy_def await_connection_def connect_settled_def
  getClient_finish_def getClient_resume_def Let_def

lemmas registration_defs = initializeTools_def registration_pass_def register_server_def
  listTools_def listTools_adapt_def toolKey_def formatMcpInstruction_def param_line_def
  instruction_header_def instruction_fallback_def js_or_def

section \<open>Properties of the Connection Manager\<close>

subsection \<open>Invocation\<close>

text \<open>
  Claim C3, as the code has it. \<^verbatim>\<open>callTool\<close> sends \<^verbatim>\<open>{name, arguments: payload}\<close> to the
  session and returns the \<^verbatim>\<open>content\<close> field of the result. When the result has no such
  field the value returned is \<^verbatim>\<open>undefined\<close>, not the result. A failure of the session
  is passed on.
\<close>

theorem callTool_returns_content:
  "(client_callTool w client (JObj [(''name'', JStr toolName), (''arguments'', payload)]) = Inr result
      \<and> has_field result ''content''
     \<longrightarrow> callTool w client toolName payload = Inr (get_field result ''content''))
   \<and> (client_callTool w client (JObj [(''name'', JStr toolName), (''arguments'', payload)]) = Inr result
      \<and> \<not> nullish result \<and> \<not> has_field result ''content''
     \<longrightarrow> callTool w client toolName payload = Inr JUndefined)
   \<and> (client_callTool w client (JObj [(''name'', JStr toolName), (''arguments'', payload)]) = Inl e
     \<longrightarrow> callTool w client toolName payload = Inl e)"
proof (intro conjI impI)
  assume "client_callTool w client (JObj [(''name'', JStr toolName), (''arguments'', payload)]) = Inr result
      \<and> has_field result ''content''"
  then show "callTool w client toolName payload = Inr (get_field result ''content'')"
    by (cases result) (auto simp: callTool_def)
next
  assume "client_callTool w client (JObj [(''name'', JStr toolName), (''arguments'', payload)]) = Inr result
      \<and> \<not> nullish result \<and> \<not> has_field result ''content''"
  then show "callTool w client toolName payload = Inr JUndefined"
    by (cases result) (auto simp: callTool_def)
next
  assume "client_callTool w client (JObj [(''name'', JStr toolName), (''arguments'', payload)]) = Inl e"
  then show "callTool w client toolName payload = Inl e"
    by (simp add: callTool_def)
qed

text \<open>
  C3 at a session that answers every request with its arguments as \<^verbatim>\<open>content\<close>, at one
  that answers \<^verbatim>\<open>{}\<close>, and at one that fails.
\<close>

theorem callTool_returns_content_witness:
  "callTool (scenario_sdk JNull) 1 ''echo'' (JObj [(''q'', JStr ''hi'')])
     = Inr (JObj [(''q'', JStr ''hi'')])
   \<and> callTool ((scenario_sdk JNull)\<lparr>client_callTool := (\<lambda>client request. Inr (JObj []))\<rparr>)
        1 ''echo'' (JObj [(''q'', JStr ''hi'')])
     = Inr JUndefined
   \<and> callTool ((scenario_sdk JNull)
          \<lparr>client_callTool := (\<lambda>client request. Inl (External ''tool failed''))\<rparr>)
        1 ''echo'' (JObj [(''q'', JStr ''hi'')])
     = Inl (External ''tool failed'')"
proof -
  define request where
    "request = JObj [(''name'', JStr ''echo''), (''arguments'', JObj [(''q'', JStr ''hi'')])]"
  define w2 where
    "w2 = (scenario_sdk JNull)\<lparr>client_callTool := (\<lambda>client request. Inr (JObj []))\<rparr>"
  define w3 where
    "w3 = (scenario_sdk JNull)
            \<lparr>client_callTool := (\<lambda>client request. Inl (External ''tool failed''))\<rparr>"
  have a1: "client_callTool (scenario_sdk JNull) 1 request
      = Inr (JObj [(''content'', JObj [(''q'', JStr ''hi'')])])"
    "has_field (JObj [(''content'', JObj [(''q'', JStr ''hi'')])]) ''content''"
    by (simp_all add: scenario_sdk_def request_def)
  have a2: "client_callTool w2 1 request = Inr (JObj [])" "\<not> nullish (JObj [])"
    "\<not> has_field (JObj []) ''content''"
    by (simp_all add: w2_def)
  have a3: "client_callTool w3 1 request = Inl (External ''tool failed'')"
    by (simp add: w3_def)
  note i1 = callTool_returns_content [where w = "scenario_sdk JNull" and client = 1
      and toolName = "''echo''" and payload = "JObj [(''q'', JStr ''hi'')]"
      and result = "JObj [(''content'', JObj [(''q'', JStr ''hi'')])]"
      and e = "External ''tool failed''", folded request_def]
  note i2 = callTool_returns_content [where w = w2 and client = 1
      and toolName = "''echo''" and payload = "JObj [(''q'', JStr ''hi'')]"
      and result = "JObj []" and e = "External ''tool failed''", folded request_def]
  note i3 = callTool_returns_content [where w = w3 and client = 1
      and toolName = "''echo''" and payload = "JObj [(''q'', JStr ''hi'')]"
      and result = "JObj []" and e = "External ''tool failed''", folded request_def]
  from i1 a1 have "callTool (scenario_sdk JNull) 1 ''echo'' (JObj [(''q'', JStr ''hi'')])
      = Inr (get_field (JObj [(''content'', JObj [(''q'', JStr ''hi'')])]) ''content'')"
    by blast
  moreover from i2 a2 have "callTool w2 1 ''echo'' (JObj [(''q'', JStr ''hi'')]) = Inr JUndefined"
    by blast
  moreover from i3 a3
  have "callTool w3 1 ''echo'' (JObj [(''q'', JStr ''hi'')]) = Inl (External ''tool failed'')"
    by blast
  ultimately show ?thesis unfolding w2_def w3_def by simp
qed

text \<open>
  Claim C3 as stated fails at a session whose result is \<^verbatim>\<open>{toolResult: "done"}\<close>:
  \<^verbatim>\<open>callTool\<close> returns \<^verbatim>\<open>undefined\<close>, not the result.
\<close>

theorem callTool_no_content_counterexample:
  "callTool \<lparr>connect = (\<lambda>i. Inr (0::nat)), client_listTools = (\<lambda>c. Inr (JArr [])),
       client_callTool = (\<lambda>c request. Inr (JObj [(''toolResult'', JStr ''done'')]))\<rparr>
     0 ''run'' (JObj [])
   = Inr JUndefined
   \<and> callTool \<lparr>connect = (\<lambda>i. Inr (0::nat)), client_listTools = (\<lambda>c. Inr (JArr [])),
       client_callTool = (\<lambda>c request. Inr (JObj [(''toolResult'', JStr ''done'')]))\<rparr>
     0 ''run'' (JObj [])
   \<noteq> Inr (JObj [(''toolResult'', JStr ''done'')])"
  by (simp add: callTool_def)

subsection \<open>Discovery\<close>

lemma listTools_adapt_array:
  "listTools_adapt (JArr ts) = (if list_ex nullish ts then Inl TypeError else Inr ts)"
  by (simp add: listTools_adapt_def)

lemma listTools_adapt_wrapped:
  "map_of kvs ''tools'' = Some (JArr ts) \<Longrightarrow>
     listTools_adapt (JObj kvs) = (if list_ex nullish ts then Inl TypeError else Inr ts)"
  by (simp add: listTools_adapt_def)

lemma listTools_adapt_other:
  assumes "is_object result \<or> \<not> truthy result" "\<not> isArray result"
    "\<not> isArray (get_field result ''tools'')"
  shows "listTools_adapt result = Inr []"
  using assms by (cases result) (auto simp: listTools_adapt_def)

text \<open>
  Claim C8, as the code has it. A bare array of tool definitions and an object holding
  the same array under \<^verbatim>\<open>tools\<close> give the same outcome, which is that array in its order
  when none of its elements is null or undefined. A response that is an object or a falsy
  value, is not an array and holds no array under \<^verbatim>\<open>tools\<close> gives the empty sequence.
\<close>

theorem listTools_normalizes:
  "(client_listTools w client = Inr (JArr ts) \<and> client_listTools w' client' = Inr (JObj kvs)
      \<and> map_of kvs ''tools'' = Some (JArr ts)
     \<longrightarrow> listTools w client = listTools w' client'
         \<and> (\<not> list_ex nullish ts \<longrightarrow> listTools w client = Inr ts))
   \<and> (client_listTools w client = Inr result \<and> (is_object result \<or> \<not> truthy result)
      \<and> \<not> isArray result \<and> \<not> isArray (get_field result ''tools'')
     \<longrightarrow> listTools w client = Inr [])"
  by (auto simp: listTools_def listTools_adapt_array listTools_adapt_wrapped listTools_adapt_other)

text \<open>
  C8 at the listing \<^verbatim>\<open>[scrape, search]\<close>, bare and wrapped, and at the response
  \<^verbatim>\<open>{items: [scrape]}\<close>.
\<close>

theorem listTools_normalizes_witness:
  "listTools (scenario_sdk (JArr [scrape_tool, search_tool])) 1 = Inr [scrape_tool, search_tool]
   \<and> listTools (scenario_sdk (JObj [(''tools'', JArr [scrape_tool, search_tool])])) 1
       = Inr [scrape_tool, search_tool]
   \<and> listTools (scenario_sdk (JObj [(''items'', JArr [scrape_tool])])) 1 = Inr []"
proof -
  define bare where "bare = scenario_sdk (JArr [scrape_tool, search_tool])"
  define wrapped where "wrapped = scenario_sdk (JObj [(''tools'', JArr [scrape_tool, search_tool])])"
  define other where "other = scenario_sdk (JObj [(''items'', JArr [scrape_tool])])"
  have a: "client_listTools bare 1 = Inr (JArr [scrape_tool, search_tool])"
    "client_listTools wrapped 1 = Inr (JObj [(''tools'', JArr [scrape_tool, search_tool])])"
    "client_listTools other 1 = Inr (JObj [(''items'', JArr [scrape_tool])])"
    by (simp_all add: scenario_sdk_def bare_def wrapped_def other_def)
  have b: "map_of [(''tools'', JArr [scrape_tool, search_tool])] ''tools''
      = Some (JArr [scrape_tool, search_tool])"
    "\<not> list_ex nullish [scrape_tool, search_tool]"
    by (simp_all add: scrape_tool_def search_tool_def)
  have c: "is_object (JObj [(''items'', JArr [scrape_tool])])
      \<or> \<not> truthy (JObj [(''items'', JArr [scrape_tool])])"
    "\<not> isArray (JObj [(''items'', JArr [scrape_tool])])"
    "\<not> isArray (get_field (JObj [(''items'', JArr [scrape_tool])]) ''tools'')"
    by simp_all
  note i1 = listTools_normalizes [where w = bare and client = 1
      and ts = "[scrape_tool, search_tool]" and w' = wrapped and client' = 1
      and kvs = "[(''tools'', JArr [scrape_tool, search_tool])]"]
  note i2 = listTools_normalizes [where w = other and client = 1
      and result = "JObj [(''items'', JArr [scrape_tool])]" and ts = "[]" and w' = other
      and client' = 1 and kvs = "[]"]
  from i1 a(1,2) b have "listTools bare 1 = listTools wrapped 1"
    and "listTools bare 1 = Inr [scrape_tool, search_tool]"
    by blast+
  moreover from i2 a(3) c have "listTools other 1 = Inr []" by blast
  ultimately show ?thesis unfolding bare_def wrapped_def other_def by simp
qed

text \<open>
  Claim C8 as stated fails at the response \<^verbatim>\<open>"unavailable"\<close>: the test
  \<^verbatim>\<open>'tools' in result\<close> raises a TypeError on a string, and \<^verbatim>\<open>listTools\<close> rethrows it
  instead of returning the empty sequence.
\<close>

theorem listTools_primitive_counterexample:
  "listTools (scenario_sdk (JStr ''unavailable'')) 1 = Inl TypeError
   \<and> listTools (scenario_sdk (JStr ''unavailable'')) 1 \<noteq> Inr []"
  by (simp add: listTools_def listTools_adapt_def scenario_sdk_def)

subsection \<open>Transport selection\<close>

lemma establishConnection_begin_invalid:
  assumes "select_transport cfg = Inl e"
  shows "establishConnection_begin cfg s =
     (attempts s,
      s\<lparr>connectingPromises := (connectingPromises s)(server_id cfg := None),
        promise_state := (promise_state s)(attempts s := Rejected e),
        promise_server := (promise_server s)(attempts s := server_id cfg),
        attempts := Suc (attempts s)\<rparr>)"
  using assms by (simp add: establishConnection_begin_def Let_def)

lemma getClient_invalid:
  assumes "select_transport cfg = Inl e"
    and "clients s (server_id cfg) = None" "connectingPromises s (server_id cfg) = None"
  shows "getClient w cfg s =
     (Inl e, s\<lparr>promise_state := (promise_state s)(attempts s := Rejected e),
               promise_server := (promise_server s)(attempts s := server_id cfg),
               attempts := Suc (attempts s)\<rparr>)"
  using assms
  by (simp add: getClient_def getClient_begin_def establishConnection_begin_invalid
      await_connection_def connect_settled_def getClient_finish_def fun_upd_idem)

lemma getClient_invalid_effects:
  assumes "select_transport cfg = Inl e"
    and "clients s (server_id cfg) = None" "connectingPromises s (server_id cfg) = None"
  shows "fst (getClient w cfg s) = Inl e
     \<and> connect_calls (snd (getClient w cfg s)) = connect_calls s
     \<and> clients (snd (getClient w cfg s)) = clients s
     \<and> connectingPromises (snd (getClient w cfg s)) = connectingPromises s"
  by (simp add: getClient_invalid [OF assms])

lemma getClient_no_pending:
  assumes "connectingPromises s = Map.empty"
  shows "connectingPromises (snd (getClient w cfg s)) = Map.empty"
proof (cases "clients s (server_id cfg)")
  case (Some client)
  then show ?thesis using assms by (simp add: getClient_def getClient_begin_def)
next
  case None
  show ?thesis
  proof (cases "select_transport cfg")
    case (Inl e)
    have "connectingPromises s (server_id cfg) = None" using assms by simp
    from getClient_invalid_effects [OF Inl None this, of w] assms show ?thesis by simp
  next
    case (Inr t)
    show ?thesis
      using assms None Inr
      by (cases "connect w (server_id cfg)")
        (simp_all add: getClient_def getClient_begin_def establishConnection_begin_def
          await_connection_def connect_settled_def getClient_finish_def Let_def)
  qed
qed

lemma getClient_stores_valid:
  assumes "connectingPromises s = Map.empty"
    and "clients (snd (getClient w cfg s)) i = Some client"
  shows "clients s i = Some client \<or> (i = server_id cfg \<and> (\<exists>t. select_transport cfg = Inr t))"
proof (cases "clients s (server_id cfg)")
  case (Some c)
  then show ?thesis using assms by (simp add: getClient_def getClient_begin_def)
next
  case None
  show ?thesis
  proof (cases "select_transport cfg")
    case (Inl e)
    have "connectingPromises s (server_id cfg) = None" using assms by simp
    from getClient_invalid_effects [OF Inl None this, of w] assms show ?thesis by simp
  next
    case (Inr t)
    show ?thesis
      using assms None Inr
      by (cases "connect w (server_id cfg)")
        (auto simp: getClient_def getClient_begin_def establishConnection_begin_def
          await_connection_def connect_settled_def getClient_finish_def Let_def
          split: if_splits)
  qed
qed

lemma getClient_sequence_invariant:
  assumes "connectingPromises s = Map.empty"
  shows "connectingPromises (getClient_sequence w cfgs s) = Map.empty
     \<and> (\<forall>i client. clients (getClient_sequence w cfgs s) i = Some client \<longrightarrow>
           clients s i = Some client
           \<or> (\<exists>c \<in> set cfgs. server_id c = i \<and> (\<exists>t. select_transport c = Inr t)))"
  using assms
proof (induction cfgs arbitrary: s)
  case Nil
  then show ?case by simp
next
  case (Cons cfg cfgs)
  have p: "connectingPromises (snd (getClient w cfg s)) = Map.empty"
    by (rule getClient_no_pending [OF Cons.prems])
  note ih = Cons.IH [OF p]
  show ?case
  proof (intro conjI allI impI)
    show "connectingPromises (getClient_sequence w (cfg # cfgs) s) = Map.empty"
      using ih by simp
  next
    fix i client
    assume "clients (getClient_sequence w (cfg # cfgs) s) i = Some client"
    then have "clients (snd (getClient w cfg s)) i = Some client
           \<or> (\<exists>c \<in> set cfgs. server_id c = i \<and> (\<exists>t. select_transport c = Inr t))"
      using ih by simp
    then show "clients s i = Some client
           \<or> (\<exists>c \<in> set (cfg # cfgs). server_id c = i \<and> (\<exists>t. select_transport c = Inr t))"
    proof
      assume "clients (snd (getClient w cfg s)) i = Some client"
      from getClient_stores_valid [OF Cons.prems this] show ?thesis by auto
    next
      assume "\<exists>c \<in> set cfgs. server_id c = i \<and> (\<exists>t. select_transport c = Inr t)"
      then show ?thesis by auto
    qed
  qed
qed

lemma getClient_sequence_fresh:
  assumes "select_transport cfg = Inl e"
    and "\<forall>c. c \<in> set cfgs \<and> server_id c = server_id cfg \<longrightarrow> c = cfg"
  shows "clients (getClient_sequence w cfgs McpClientService_new) (server_id cfg) = None"
    and "connectingPromises (getClient_sequence w cfgs McpClientService_new) (server_id cfg) = None"
proof -
  have start: "connectingPromises (McpClientService_new :: 'a McpClientService) = Map.empty"
    "clients (McpClientService_new :: 'a McpClientService) = Map.empty"
    by (simp_all add: McpClientService_new_def)
  note inv = getClient_sequence_invariant [OF start(1), of w cfgs]
  show "connectingPromises (getClient_sequence w cfgs McpClientService_new) (server_id cfg) = None"
    using inv by simp
  show "clients (getClient_sequence w cfgs McpClientService_new) (server_id cfg) = None"
  proof (rule ccontr)
    assume "clients (getClient_sequence w cfgs McpClientService_new) (server_id cfg) \<noteq> None"
    then obtain client where
      "clients (getClient_sequence w cfgs McpClientService_new) (server_id cfg) = Some client"
      by blast
    with inv start(2) obtain c t where
      c: "c \<in> set cfgs" "server_id c = server_id cfg" "select_transport c = Inr t"
      by fastforce
    with assms(2) have "c = cfg" by blast
    with c(3) assms(1) show False by simp
  qed
qed

text \<open>
  Claim C7. A stdio configuration without a command and an http configuration without an
  address fail the transport selection with a Configuration error, an http configuration
  with an address and any other transport kind with a NotImplemented error. A configuration that fails the selection has its
  promise rejected at once with no call of \<^verbatim>\<open>client.connect\<close>. \<^verbatim>\<open>getClient\<close> for it, when
  the store holds no session and no pending attempt for its id, fails with that error,
  makes no call of \<^verbatim>\<open>client.connect\<close>, stores no session and leaves no pending entry; and
  that is the case in every state the service reaches from its construction by
  \<^verbatim>\<open>getClient\<close> calls for configurations among which the id names this one only.
\<close>

theorem missing_transport_fields_fail:
  "(transport_type cfg = ''stdio'' \<and> \<not> str_truthy (command cfg)
      \<longrightarrow> select_transport cfg = Inl StdioNoCommand \<and> kind_of StdioNoCommand = Configuration)
   \<and> (transport_type cfg = ''http'' \<and> \<not> str_truthy (address cfg)
      \<longrightarrow> select_transport cfg = Inl HttpNoAddress \<and> kind_of HttpNoAddress = Configuration)
   \<and> (transport_type cfg = ''http'' \<and> str_truthy (address cfg)
      \<longrightarrow> select_transport cfg = Inl HttpNotImplemented
         \<and> kind_of HttpNotImplemented = NotImplemented)
   \<and> (transport_type cfg \<noteq> ''stdio'' \<and> transport_type cfg \<noteq> ''http''
      \<longrightarrow> select_transport cfg = Inl (UnsupportedTransport (transport_type cfg) (server_id cfg))
         \<and> kind_of (UnsupportedTransport (transport_type cfg) (server_id cfg)) = NotImplemented)
   \<and> (select_transport cfg = Inl e
      \<longrightarrow> connect_calls (snd (establishConnection_begin cfg s)) = connect_calls s
         \<and> promise_state (snd (establishConnection_begin cfg s)) (attempts s) = Rejected e)
   \<and> (select_transport cfg = Inl e
        \<and> clients s (server_id cfg) = None \<and> connectingPromises s (server_id cfg) = None
      \<longrightarrow> fst (getClient w cfg s) = Inl e
         \<and> connect_calls (snd (getClient w cfg s)) = connect_calls s
         \<and> clients (snd (getClient w cfg s)) = clients s
         \<and> connectingPromises (snd (getClient w cfg s)) = connectingPromises s)
   \<and> (select_transport cfg = Inl e
        \<and> (\<forall>c. c \<in> set cfgs \<and> server_id c = server_id cfg \<longrightarrow> c = cfg)
        \<and> s0 = getClient_sequence w cfgs McpClientService_new
      \<longrightarrow> fst (getClient w cfg s0) = Inl e
         \<and> connect_calls (snd (getClient w cfg s0)) = connect_calls s0
         \<and> clients (snd (getClient w cfg s0)) (server_id cfg) = None
         \<and> connectingPromises (snd (getClient w cfg s0)) (server_id cfg) = None)"
proof (intro conjI impI)
  assume "select_transport cfg = Inl e
        \<and> clients s (server_id cfg) = None \<and> connectingPromises s (server_id cfg) = None"
  then have a: "select_transport cfg = Inl e" "clients s (server_id cfg) = None"
    "connectingPromises s (server_id cfg) = None" by simp_all
  note b = getClient_invalid_effects [OF a, of w]
  show "fst (getClient w cfg s) = Inl e" using b by blast
  show "connect_calls (snd (getClient w cfg s)) = connect_calls s" using b by blast
  show "clients (snd (getClient w cfg s)) = clients s" using b by blast
  show "connectingPromises (snd (getClient w cfg s)) = connectingPromises s" using b by blast
next
  assume "select_transport cfg = Inl e
        \<and> (\<forall>c. c \<in> set cfgs \<and> server_id c = server_id cfg \<longrightarrow> c = cfg)
        \<and> s0 = getClient_sequence w cfgs McpClientService_new"
  then have a: "select_transport cfg = Inl e"
    and u: "\<forall>c. c \<in> set cfgs \<and> server_id c = server_id cfg \<longrightarrow> c = cfg"
    and s0: "s0 = getClient_sequence w cfgs McpClientService_new" by simp_all
  have fresh: "clients s0 (server_id cfg) = None" "connectingPromises s0 (server_id cfg) = None"
    unfolding s0 by (rule getClient_sequence_fresh [OF a u])+
  note b = getClient_invalid_effects [OF a fresh, of w]
  show "fst (getClient w cfg s0) = Inl e" using b by blast
  show "connect_calls (snd (getClient w cfg s0)) = connect_calls s0" using b by blast
  show "clients (snd (getClient w cfg s0)) (server_id cfg) = None" using b fresh by simp
  show "connectingPromises (snd (getClient w cfg s0)) (server_id cfg) = None"
    using b fresh by simp
qed (simp_all add: select_transport_def establishConnection_begin_invalid)

text \<open>
  C7 at the configured server with its command removed, on the service as constructed; at
  the same entry declared \<^verbatim>\<open>http\<close>, without and with an address, and \<^verbatim>\<open>websocket\<close>; and at a
  server \<^verbatim>\<open>local\<close> with an empty command, after a call for the configured server.
\<close>

theorem missing_transport_fields_fail_witness:
  "fst (getClient (scenario_sdk JNull) ((firecrawl [])\<lparr>command := None\<rparr>) McpClientService_new)
     = Inl StdioNoCommand
   \<and> connect_calls (snd (getClient (scenario_sdk JNull) ((firecrawl [])\<lparr>command := None\<rparr>)
        McpClientService_new)) = []
   \<and> clients (snd (getClient (scenario_sdk JNull) ((firecrawl [])\<lparr>command := None\<rparr>)
        McpClientService_new)) (server_id (firecrawl [])) = None
   \<and> select_transport ((firecrawl [])\<lparr>transport_type := ''http''\<rparr>) = Inl HttpNoAddress
   \<and> select_transport ((firecrawl [])
          \<lparr>transport_type := ''http'', address := Some ''http://localhost:3001/mcp''\<rparr>)
       = Inl HttpNotImplemented
   \<and> select_transport ((firecrawl [])\<lparr>transport_type := ''websocket''\<rparr>)
       = Inl (UnsupportedTransport ''websocket'' ''4b6d88f3-d23d-4ece-8dc7-5c8a94ac0d38'')
   \<and> fst (getClient (scenario_sdk JNull)
        ((firecrawl [])\<lparr>server_id := ''local'', command := Some []\<rparr>)
        (getClient_sequence (scenario_sdk JNull) [firecrawl []] McpClientService_new))
     = Inl StdioNoCommand
   \<and> connect_calls (snd (getClient (scenario_sdk JNull)
        ((firecrawl [])\<lparr>server_id := ''local'', command := Some []\<rparr>)
        (getClient_sequence (scenario_sdk JNull) [firecrawl []] McpClientService_new)))
     = connect_calls (getClient_sequence (scenario_sdk JNull) [firecrawl []] McpClientService_new)"
proof -
  define w where "w = scenario_sdk JNull"
  define cfg where "cfg = (firecrawl [])\<lparr>command := None\<rparr>"
  define s :: "nat McpClientService" where "s = McpClientService_new"
  have a: "transport_type cfg = ''stdio'' \<and> \<not> str_truthy (command cfg)"
    by (simp add: cfg_def firecrawl_def str_truthy_def)
  have b: "clients s (server_id cfg) = None" "connectingPromises s (server_id cfg) = None"
    by (simp_all add: s_def McpClientService_new_def)
  have c: "connect_calls s = []" "clients s (server_id (firecrawl [])) = None"
    by (simp_all add: s_def McpClientService_new_def)
  note i1 = missing_transport_fields_fail [where cfg = cfg and e = StdioNoCommand and s = s
      and w = w and cfgs = "[]" and ?s0.0 = s]
  from i1 a have sel: "select_transport cfg = Inl StdioNoCommand" by blast
  from i1 sel b
  have "fst (getClient w cfg s) = Inl StdioNoCommand"
    and "connect_calls (snd (getClient w cfg s)) = connect_calls s"
    and "clients (snd (getClient w cfg s)) = clients s"
    by blast+
  then have p1: "fst (getClient w cfg s) = Inl StdioNoCommand"
    "connect_calls (snd (getClient w cfg s)) = []"
    "clients (snd (getClient w cfg s)) (server_id (firecrawl [])) = None"
    using c by simp_all
  define h where "h = (firecrawl [])\<lparr>transport_type := ''http''\<rparr>"
  have "transport_type h = ''http'' \<and> \<not> str_truthy (address h)"
    by (simp add: h_def firecrawl_def str_truthy_def)
  with missing_transport_fields_fail [where cfg = h and e = HttpNoAddress and s = s and w = w
      and cfgs = "[]" and ?s0.0 = s]
  have p2: "select_transport h = Inl HttpNoAddress" by blast
  define ha where "ha = (firecrawl [])
      \<lparr>transport_type := ''http'', address := Some ''http://localhost:3001/mcp''\<rparr>"
  have "transport_type ha = ''http'' \<and> str_truthy (address ha)"
    by (simp add: ha_def str_truthy_def)
  with missing_transport_fields_fail [where cfg = ha and e = HttpNoAddress and s = s and w = w
      and cfgs = "[]" and ?s0.0 = s]
  have p2a: "select_transport ha = Inl HttpNotImplemented" by blast
  define u where "u = (firecrawl [])\<lparr>transport_type := ''websocket''\<rparr>"
  have "transport_type u \<noteq> ''stdio'' \<and> transport_type u \<noteq> ''http''"
    by (simp add: u_def)
  with missing_transport_fields_fail [where cfg = u and e = HttpNoAddress and s = s and w = w
      and cfgs = "[]" and ?s0.0 = s]
  have "select_transport u = Inl (UnsupportedTransport (transport_type u) (server_id u))"
    by blast
  then have p3: "select_transport u
      = Inl (UnsupportedTransport ''websocket'' ''4b6d88f3-d23d-4ece-8dc7-5c8a94ac0d38'')"
    by (simp add: u_def firecrawl_def)
  define l where "l = (firecrawl [])\<lparr>server_id := ''local'', command := Some []\<rparr>"
  define s0 :: "nat McpClientService" where
    "s0 = getClient_sequence w [firecrawl []] McpClientService_new"
  have la: "transport_type l = ''stdio'' \<and> \<not> str_truthy (command l)"
    by (simp add: l_def firecrawl_def str_truthy_def)
  have lu: "\<forall>c. c \<in> set [firecrawl []] \<and> server_id c = server_id l \<longrightarrow> c = l"
    by (simp add: l_def firecrawl_def)
  note i4 = missing_transport_fields_fail [where cfg = l and e = StdioNoCommand and s = s
      and w = w and cfgs = "[firecrawl []]" and ?s0.0 = s0]
  from i4 la have lsel: "select_transport l = Inl StdioNoCommand" by blast
  from i4 lsel lu s0_def
  have p4: "fst (getClient w l s0) = Inl StdioNoCommand"
    "connect_calls (snd (getClient w l s0)) = connect_calls s0"
    by blast+
  from p1 p2 p2a p3 p4 show ?thesis
    unfolding w_def cfg_def s_def h_def ha_def u_def l_def s0_def by simp
qed

subsection \<open>Single flight\<close>









section \<open>Properties of the Tool Registry\<close>

subsection \<open>The completion flag\<close>


lemma register_native_flag:
  "isInitialized (snd (register_native w ts (l, r))) = isInitialized r"
  by (induction ts arbitrary: l r) (simp_all split: option.splits)


lemma register_mcp_tools_flag:
  "isInitialized (snd (register_mcp_tools w cfg ts (l, r))) = isInitialized r"
  by (induction ts arbitrary: l r) (simp_all add: Let_def split: sum.splits)

lemma register_server_flag:
  "isInitialized (snd (register_server w cfg (l, r))) = isInitialized r"
  by (simp add: register_server_def register_mcp_tools_flag split: prod.splits sum.splits)

lemma register_servers_flag:
  "isInitialized (snd (register_servers w cfgs lr)) = isInitialized (snd lr)"
proof (induction cfgs arbitrary: lr)
  case Nil
  show ?case by simp
next
  case (Cons cfg cfgs)
  show ?case
    by (cases lr) (simp add: Cons.IH register_server_flag)
qed

lemma registration_pass_flag:
  "isInitialized (snd (registration_pass w r)) = isInitialized r"
  by (simp add: registration_pass_def register_servers_flag register_native_flag split: sum.splits)

lemma registration_pass_flag_snd:
  "registration_pass w r = (l, r2) \<Longrightarrow> isInitialized r2 = isInitialized r"
  using registration_pass_flag [of w r] by simp

lemma initializeTools_returns:
  "initializeTools w r = (None, r') \<Longrightarrow> isInitialized r'"
  by (auto simp: initializeTools_def Let_def split: if_splits prod.splits option.splits)

lemma initializeTools_raises:
  "initializeTools w r = (Some e, r') \<Longrightarrow> \<not> isInitialized r'"
  by (auto simp: initializeTools_def dest: registration_pass_flag_snd split: if_splits option.splits prod.splits)

text \<open>
  Claim C9. A call of \<^verbatim>\<open>initializeTools\<close> with the flag set returns at once and changes
  nothing. A call that returns leaves the flag set, and a following call, whatever the
  collaborators would do, returns the same state: no connection, no discovery, the same
  catalog and callable map. A call that raises leaves the flag unset. The call returns
  whenever publishing the catalog does not raise.
\<close>

theorem initializeTools_idempotent:
  "(isInitialized r \<longrightarrow> initializeTools w r = (None, r))
   \<and> (initializeTools w r = (None, r1)
      \<longrightarrow> isInitialized r1 \<and> initializeTools w2 r1 = (None, r1))
   \<and> (initializeTools w r = (Some e, r1) \<longrightarrow> \<not> isInitialized r1)
   \<and> (updateSession_error w = None \<longrightarrow> (\<exists>r1. initializeTools w r = (None, r1)))"
proof (intro conjI impI)
  show "isInitialized r \<Longrightarrow> initializeTools w r = (None, r)"
    by (simp add: initializeTools_def)
  show "initializeTools w r = (None, r1) \<Longrightarrow> isInitialized r1"
    by (rule initializeTools_returns)
  show "initializeTools w r = (None, r1) \<Longrightarrow> initializeTools w2 r1 = (None, r1)"
    by (simp add: initializeTools_def [of w2] initializeTools_returns)
  show "initializeTools w r = (Some e, r1) \<Longrightarrow> \<not> isInitialized r1"
    by (rule initializeTools_raises)
  show "updateSession_error w = None \<Longrightarrow> \<exists>r1. initializeTools w r = (None, r1)"
    by (simp add: initializeTools_def split: prod.splits)
qed

text \<open>
  C9 at a first call on the registry as loaded and a second call in another world, and at
  a first call whose publishing raises.
\<close>

theorem initializeTools_idempotent_witness:
  "fst (initializeTools (scenario [scrape_tool] [memory_entry] [firecrawl []]) registry_new) = None
   \<and> isInitialized (snd (initializeTools (scenario [scrape_tool] [memory_entry] [firecrawl []])
          registry_new))
   \<and> initializeTools (scenario [search_tool] [ghost_entry] [])
        (snd (initializeTools (scenario [scrape_tool] [memory_entry] [firecrawl []]) registry_new))
     = (None, snd (initializeTools (scenario [scrape_tool] [memory_entry] [firecrawl []])
          registry_new))
   \<and> fst (initializeTools
        ((scenario [scrape_tool] [memory_entry] [firecrawl []])
           \<lparr>updateSession_error := Some (External ''session store'')\<rparr>) registry_new)
     = Some (External ''session store'')
   \<and> \<not> isInitialized (snd (initializeTools
        ((scenario [scrape_tool] [memory_entry] [firecrawl []])
           \<lparr>updateSession_error := Some (External ''session store'')\<rparr>) registry_new))"
proof -
  define w where "w = scenario [scrape_tool] [memory_entry] [firecrawl []]"
  define wx where "wx = w\<lparr>updateSession_error := Some (External ''session store'')\<rparr>"
  define r0 :: "(nat, string) registry" where "r0 = registry_new"
  have ok: "updateSession_error w = None" by (simp add: w_def scenario_def)
  note first = initializeTools_idempotent [where r = r0 and w = w]
  from first ok obtain r1 where run: "initializeTools w r0 = (None, r1)" by blast
  note second = initializeTools_idempotent [where r = r0 and w = w and ?r1.0 = r1
      and ?w2.0 = "scenario [search_tool] [ghost_entry] []"]
  from second run have init: "isInitialized r1"
    and again: "initializeTools (scenario [search_tool] [ghost_entry] []) r1 = (None, r1)"
    by blast+
  from initializeTools_idempotent [where r = r1 and w = w] init
  have "initializeTools w r1 = (None, r1)" by blast
  have raised: "fst (initializeTools wx r0) = Some (External ''session store'')"
    by (simp add: initializeTools_def wx_def r0_def registry_new_def split: prod.splits)
  then have "initializeTools wx r0 = (Some (External ''session store''), snd (initializeTools wx r0))"
    by (metis prod.collapse)
  with initializeTools_idempotent [where r = r0 and w = wx and e = "External ''session store''"
      and ?r1.0 = "snd (initializeTools wx r0)"]
  have unset: "\<not> isInitialized (snd (initializeTools wx r0))" by blast
  from run init again raised unset show ?thesis unfolding w_def wx_def r0_def by simp
qed

subsection \<open>Disabled servers\<close>

text \<open>
  Claim C2 fails on the code. With the configured server marked \<^verbatim>\<open>enabled: false\<close>,
  \<^verbatim>\<open>initializeTools\<close> still connects to it (the child process is spawned and the session
  stored), lists its tools and registers them in the catalog and in the callable map.
\<close>

theorem disabled_server_is_registered:
  "enabled ((firecrawl [])\<lparr>enabled := False\<rparr>) = False
   \<and> fst (initializeTools (scenario [search_tool] [] [(firecrawl [])\<lparr>enabled := False\<rparr>])
        registry_new) = None
   \<and> connect_calls (mcpClientService (snd (initializeTools
        (scenario [search_tool] [] [(firecrawl [])\<lparr>enabled := False\<rparr>]) registry_new)))
     = [(0, StdioClientTransport ''/Users/overment/.nvm/versions/node/v22.11.0/bin/npx''
              [''-y'', ''firecrawl-mcp'']
              (Some [(''FIRECRAWL_API_KEY'', ''fc-...''),
                     (''PATH'', ''/Users/overment/.nvm/versions/node/v22.11.0/bin:'')]))]
   \<and> clients (mcpClientService (snd (initializeTools
        (scenario [search_tool] [] [(firecrawl [])\<lparr>enabled := False\<rparr>]) registry_new)))
        ''4b6d88f3-d23d-4ece-8dc7-5c8a94ac0d38'' = Some 1
   \<and> map t_name (session_tools (snd (initializeTools
        (scenario [search_tool] [] [(firecrawl [])\<lparr>enabled := False\<rparr>]) registry_new)))
     = [''4b6d88f3-d23d-4ece-8dc7-5c8a94ac0d38/firecrawl_search'']
   \<and> activeToolsMap (snd (initializeTools
        (scenario [search_tool] [] [(firecrawl [])\<lparr>enabled := False\<rparr>]) registry_new))
        ''4b6d88f3-d23d-4ece-8dc7-5c8a94ac0d38/firecrawl_search''
     = Some (McpToolService ((firecrawl [])\<lparr>enabled := False\<rparr>))"
  by (simp add: scenario_defs registration_defs getClient_defs)

subsection \<open>Catalog and callable map\<close>












section \<open>Properties of the Action Result Normalizer\<close>

subsection \<open>Canonical text\<close>

text \<open>
  Claim C4, as the code has it. A string is used verbatim. An object whose \<^verbatim>\<open>content\<close>
  is a non-empty array whose first element is an object of type \<^verbatim>\<open>text\<close> with a string
  \<^verbatim>\<open>text\<close> yields that text. An object whose \<^verbatim>\<open>content\<close> is a non-empty array whose
  first element is not of that shape yields the full serialization of the result. An
  object whose \<^verbatim>\<open>content\<close> is anything else (absent, a string, another non-array, the
  empty array) goes to the digest of the well-known fields, and to the full serialization
  only when that digest is empty.
\<close>

theorem extract_text_content_rules:
  "extract_text_content (JStr s) = Some s
   \<and> (is_object result \<and> get_field result ''content'' = JArr (firstContent # rest)
        \<and> is_object firstContent \<and> get_field firstContent ''type'' = JStr ''text''
        \<and> get_field firstContent ''text'' = JStr t
      \<longrightarrow> extract_text_content result = Some t)
   \<and> (is_object result \<and> get_field result ''content'' = JArr (firstContent # rest)
        \<and> \<not> is_text_item firstContent
      \<longrightarrow> extract_text_content result = Some (stringify result))
   \<and> (is_object result \<and> (\<forall>f r. get_field result ''content'' \<noteq> JArr (f # r))
      \<longrightarrow> extract_text_content result
            = Some (if digest result = [] then stringify result else digest result))"
proof (intro conjI impI)
  show "extract_text_content (JStr s) = Some s"
    by (simp add: extract_text_content_def)
next
  assume a: "is_object result \<and> get_field result ''content'' = JArr (firstContent # rest)
        \<and> is_object firstContent \<and> get_field firstContent ''type'' = JStr ''text''
        \<and> get_field firstContent ''text'' = JStr t"
  then have "is_text_item firstContent" by (simp add: is_text_item_def)
  with a show "extract_text_content result = Some t"
    by (cases result) (simp_all add: extract_text_content_def)
next
  assume a: "is_object result \<and> get_field result ''content'' = JArr (firstContent # rest)
        \<and> \<not> is_text_item firstContent"
  then show "extract_text_content result = Some (stringify result)"
    by (cases result) (simp_all add: extract_text_content_def JSON_stringify_def)
next
  assume a: "is_object result \<and> (\<forall>f r. get_field result ''content'' \<noteq> JArr (f # r))"
  then show "extract_text_content result
            = Some (if digest result = [] then stringify result else digest result)"
    by (cases result)
      (auto simp: extract_text_content_def JSON_stringify_def split: json.splits list.splits)
qed

text \<open>
  The rules of C4 at the results \<^verbatim>\<open>"Paris is the capital of France"\<close>,
  \<^verbatim>\<open>{content: [{type: "text", text: "42"}]}\<close>, \<^verbatim>\<open>{content: [5]}\<close> and \<^verbatim>\<open>{name: "n"}\<close>.
\<close>

theorem extract_text_content_rules_witness:
  "extract_text_content (JStr ''Paris is the capital of France'') = Some ''Paris is the capital of France''
   \<and> extract_text_content
        (JObj [(''content'', JArr [JObj [(''type'', JStr ''text''), (''text'', JStr ''42'')]])])
      = Some ''42''
   \<and> extract_text_content (JObj [(''content'', JArr [JNum 5])])
      = Some (stringify (JObj [(''content'', JArr [JNum 5])]))
   \<and> extract_text_content (JObj [(''name'', JStr ''n'')]) = Some ''name: n''"
  using extract_text_content_rules [of "''Paris is the capital of France''"
      "JObj [(''content'', JArr [JObj [(''type'', JStr ''text''), (''text'', JStr ''42'')]])]"
      "JObj [(''type'', JStr ''text''), (''text'', JStr ''42'')]" "[]" "''42''"]
    extract_text_content_rules [of "[]" "JObj [(''content'', JArr [JNum 5])]" "JNum 5" "[]" "[]"]
    extract_text_content_rules [of "[]" "JObj [(''name'', JStr ''n'')]" "JNull" "[]" "[]"]
  by (simp add: is_text_item_def digest_def digest_fields_def js_or_def opt_field_def)

text \<open>
  Claim C4 as stated fails at \<^verbatim>\<open>{content: "hello"}\<close>: the object has a \<^verbatim>\<open>content\<close>
  field that is not an array, and the canonical text is the digest line
  \<^verbatim>\<open>content: hello\<close>, not the serialization of the object.
\<close>

theorem content_not_array_counterexample:
  "extract_text_content (JObj [(''content'', JStr ''hello'')]) = Some ''content: hello''
   \<and> extract_text_content (JObj [(''content'', JStr ''hello'')])
       \<noteq> Some (stringify (JObj [(''content'', JStr ''hello'')]))"
  by (simp add: extract_text_content_def digest_def digest_fields_def js_or_def opt_field_def)

text \<open>The empty sequence goes the same way: \<^verbatim>\<open>{content: []}\<close> gives the digest line.\<close>

lemma empty_content_digest:
  "extract_text_content (JObj [(''content'', JArr [])]) = Some ''content: ''
   \<and> extract_text_content (JObj [(''content'', JArr [])])
       \<noteq> Some (stringify (JObj [(''content'', JArr [])]))"
  by (simp add: extract_text_content_def digest_def digest_fields_def js_or_def opt_field_def)

subsection \<open>Persistence\<close>


lemma transaction_Inr:
  "transaction w body st = (Inr a, st') \<longleftrightarrow> body st = (Inr a, st')"
  by (auto simp: transaction_def split: prod.splits sum.splits if_splits)

lemma tx_success_row:
  assumes "updateActionWithResult_tx w uuid result st = (Inr a, st')"
  shows "actions st' uuid = Some (row a) \<and> a_status (row a) = StatusCompleted
     \<and> (\<forall>t. extract_text_content result = Some t \<longrightarrow> a_result (row a) = Some t)
     \<and> (\<not> text_truthy (extract_text_content result) \<longrightarrow> docs a = [])"
  using assms
  by (auto simp: updateActionWithResult_tx_def Let_def createDocument_def query_action_def
      set_completed_def text_truthy_def
      split: option.splits sum.splits prod.splits if_splits)

lemma tx_success_document:
  assumes "updateActionWithResult_tx w uuid result st = (Inr a, st')"
    and "text_truthy (extract_text_content result)"
  shows "\<exists>d. (uuid, d_uuid d) \<in> set (actionDocuments st') \<and> documents st' (d_uuid d) = Some d
             \<and> Some (d_text d) = extract_text_content result \<and> Some d \<in> set (docs a)"
proof -
  from assms(2) obtain t where t: "extract_text_content result = Some t" "t \<noteq> []"
    by (auto simp: text_truthy_def split: option.splits)
  from assms(1) t obtain old u where
    old: "actions st uuid = Some old" and u: "created_doc_uuid w = Inr u"
    by (auto simp: updateActionWithResult_tx_def Let_def createDocument_def text_truthy_def
        split: option.splits sum.splits prod.splits if_splits)
  define d where "d = \<lparr>d_uuid = u, d_text = t, d_conversation_uuid = a_task_uuid old,
      d_source_uuid = a_task_uuid old, d_action_uuid = uuid, d_type = ''text'',
      d_content_type = ''full'', d_source = ''action_result'', d_should_index = True\<rparr>"
  from assms(1) t old u have
    st': "actionDocuments st' = actionDocuments st @ [(uuid, u)]"
         "documents st' = (documents st)(u \<mapsto> d)"
    and a: "docs a = map (\<lambda>(au, du). documents st' du)
                      (filter (\<lambda>(au, du). au = uuid) (actionDocuments st'))"
    by (auto simp: updateActionWithResult_tx_def Let_def createDocument_def text_truthy_def
        query_action_def set_completed_def d_def
        split: option.splits sum.splits prod.splits if_splits)
  have "(uuid, d_uuid d) \<in> set (actionDocuments st')" by (simp add: st' d_def)
  moreover have "documents st' (d_uuid d) = Some d" by (simp add: st' d_def)
  moreover have "Some (d_text d) = extract_text_content result" by (simp add: t d_def)
  moreover have "Some d \<in> set (docs a)"
    unfolding a by (simp add: st'(1)) (simp add: st'(2) d_def)
  ultimately show ?thesis by blast
qed

lemma tx_success:
  assumes "updateActionWithResult_tx w uuid result st = (Inr a, st')"
  shows "actions st' uuid = Some (row a) \<and> a_status (row a) = StatusCompleted
     \<and> (\<forall>t. extract_text_content result = Some t \<longrightarrow> a_result (row a) = Some t)
     \<and> (text_truthy (extract_text_content result) \<longrightarrow>
          (\<exists>d. (uuid, d_uuid d) \<in> set (actionDocuments st') \<and> documents st' (d_uuid d) = Some d
             \<and> Some (d_text d) = extract_text_content result \<and> Some d \<in> set (docs a)))
     \<and> (\<not> text_truthy (extract_text_content result) \<longrightarrow> docs a = [])"
  using tx_success_row [OF assms] tx_success_document [OF assms] by blast





lemma tx_total:
  assumes "actions st uuid = Some old" "\<forall>op. db_fault w op = None" "created_doc_uuid w = Inr u"
  shows "\<exists>a st'. updateActionWithResult_tx w uuid result st = (Inr a, st')"
  using assms
  by (simp add: updateActionWithResult_tx_def Let_def createDocument_def query_action_def
      split: option.splits sum.splits prod.splits)

text \<open>
  Claim C10. The canonical texts of \<^verbatim>\<open>null\<close>, \<^verbatim>\<open>false\<close> and \<^verbatim>\<open>0\<close> are the strings
  \<^verbatim>\<open>null\<close>, \<^verbatim>\<open>false\<close> and \<^verbatim>\<open>0\<close>. For such a result every successful
  \<^verbatim>\<open>updateActionWithResult\<close> returns the completed Action with that text as its result
  and with a linked document carrying it; and the call succeeds whenever the action
  exists, the database rejects no statement and the document service creates the document.
\<close>

theorem falsy_result_is_documented:
  "extract_text_content JNull = Some ''null''
   \<and> extract_text_content (JBool False) = Some ''false''
   \<and> extract_text_content (JNum 0) = Some ''0''
   \<and> (result \<in> {JNull, JBool False, JNum 0}
        \<and> updateActionWithResult w uuid result st = (Inr a, st')
      \<longrightarrow> a_status (row a) = StatusCompleted
          \<and> a_result (row a) = extract_text_content result
          \<and> (\<exists>d. Some d \<in> set (docs a) \<and> Some (d_text d) = extract_text_content result
                \<and> (uuid, d_uuid d) \<in> set (actionDocuments st')
                \<and> documents st' (d_uuid d) = Some d))
   \<and> (result \<in> {JNull, JBool False, JNum 0} \<and> actions st uuid = Some old
        \<and> (\<forall>op. db_fault w op = None) \<and> created_doc_uuid w = Inr u
      \<longrightarrow> (\<exists>a st'. updateActionWithResult w uuid result st = (Inr a, st')))"
proof -
  have n: "extract_text_content JNull = Some ''null''"
    by (simp add: extract_text_content_def JSON_stringify_def)
  have f: "extract_text_content (JBool False) = Some ''false''"
    by (simp add: extract_text_content_def JSON_stringify_def)
  have z: "extract_text_content (JNum 0) = Some ''0''"
    by (simp add: extract_text_content_def JSON_stringify_def num_str_def nat_str.simps
        digit_char_def)
  have truthy: "text_truthy (extract_text_content result)"
    and some: "\<exists>t. extract_text_content result = Some t"
    if "result \<in> {JNull, JBool False, JNum 0}"
    using that n f z by (auto simp: text_truthy_def)
  have ok: "a_status (row a) = StatusCompleted
          \<and> a_result (row a) = extract_text_content result
          \<and> (\<exists>d. Some d \<in> set (docs a) \<and> Some (d_text d) = extract_text_content result
                \<and> (uuid, d_uuid d) \<in> set (actionDocuments st')
                \<and> documents st' (d_uuid d) = Some d)"
    if r: "result \<in> {JNull, JBool False, JNum 0}"
      and u: "updateActionWithResult w uuid result st = (Inr a, st')"
  proof -
    from u have b: "updateActionWithResult_tx w uuid result st = (Inr a, st')"
      by (simp add: updateActionWithResult_def transaction_Inr)
    from tx_success [OF b] truthy [OF r] some [OF r] show ?thesis by auto
  qed
  have total: "\<exists>a st'. updateActionWithResult w uuid result st = (Inr a, st')"
    if "actions st uuid = Some old" "\<forall>op. db_fault w op = None" "created_doc_uuid w = Inr u"
    using tx_total [OF that] by (simp add: updateActionWithResult_def transaction_Inr)
  from n f z ok total show ?thesis by blast
qed

text \<open>
  C10 at the result \<^verbatim>\<open>null\<close> for the pending action \<^verbatim>\<open>a1\<close>: the call succeeds, the
  action is completed with result \<^verbatim>\<open>null\<close> and the document \<^verbatim>\<open>d1\<close> with text \<^verbatim>\<open>null\<close>
  is linked to it.
\<close>

theorem falsy_result_is_documented_witness:
  "JNull \<in> {JNull, JBool False, JNum 0}
   \<and> fst (updateActionWithResult (action_world_of (Inr ''d1'') True) ''a1'' JNull one_action_store)
     = Inr \<lparr>row = pending_action\<lparr>a_status := StatusCompleted, a_result := Some ''null'',
                    a_updated_at := ''t1''\<rparr>,
            docs = [Some \<lparr>d_uuid = ''d1'', d_text = ''null'', d_conversation_uuid = ''task-1'',
              d_source_uuid = ''task-1'', d_action_uuid = ''a1'', d_type = ''text'',
              d_content_type = ''full'', d_source = ''action_result'',
              d_should_index = True\<rparr>]\<rparr>
   \<and> actionDocuments (snd (updateActionWithResult (action_world_of (Inr ''d1'') True) ''a1'' JNull
        one_action_store)) = [(''a1'', ''d1'')]"
proof -
  define w where "w = action_world_of (Inr ''d1'') True"
  define res where "res = updateActionWithResult w ''a1'' JNull one_action_store"
  have r: "JNull \<in> {JNull, JBool False, JNum 0}" by simp
  have h: "actions one_action_store ''a1'' = Some pending_action" "\<forall>op. db_fault w op = None"
    "created_doc_uuid w = Inr ''d1''"
    by (simp_all add: one_action_store_def w_def action_world_of_def)
  note i1 = falsy_result_is_documented [where result = JNull and w = w and uuid = "''a1''"
      and st = one_action_store and old = pending_action and u = "''d1''", folded res_def]
  from i1 r h obtain a st' where run: "res = (Inr a, st')" by blast
  note i2 = falsy_result_is_documented [where result = JNull and w = w and uuid = "''a1''"
      and st = one_action_store and a = a and st' = st', folded res_def]
  from i2 r run have "a_status (row a) = StatusCompleted"
    and "\<exists>d. Some d \<in> set (docs a) \<and> Some (d_text d) = extract_text_content JNull
          \<and> (''a1'', d_uuid d) \<in> set (actionDocuments st')"
    by blast+
  have ev: "fst res
     = Inr \<lparr>row = pending_action\<lparr>a_status := StatusCompleted, a_result := Some ''null'',
                    a_updated_at := ''t1''\<rparr>,
            docs = [Some \<lparr>d_uuid = ''d1'', d_text = ''null'', d_conversation_uuid = ''task-1'',
              d_source_uuid = ''task-1'', d_action_uuid = ''a1'', d_type = ''text'',
              d_content_type = ''full'', d_source = ''action_result'',
              d_should_index = True\<rparr>]\<rparr>"
    and ev_l: "actionDocuments (snd res) = [(''a1'', ''d1'')]"
    by (simp_all add: res_def w_def action_world_of_def one_action_store_def pending_action_def
        updateActionWithResult_def transaction_def updateActionWithResult_tx_def
        createDocument_def text_truthy_def extract_text_content_def set_completed_def
        JSON_stringify_def query_action_def Let_def)
  from r ev ev_l run show ?thesis unfolding res_def w_def by simp
qed

end
